theory Spec2Isabelle
  imports Complex_Main "HOL-Library.Product_Lexorder" "HOL-Library.Multiset"
begin

section \<open>Python strings\<close>

text \<open>
  A Python \<open>str\<close> is modelled as a \<open>string\<close> holding its UTF-8 encoding. Every
  character the code searches for, replaces or compares is ASCII, and an ASCII byte never
  occurs inside the encoding of another code point, so the byte-wise operations below agree
  with Python's code-point-wise ones. \<open>upper\<close> and \<open>lower\<close> map the ASCII letters and
  leave every other byte alone (Python also maps the non-ASCII letters, a handful of which,
  such as U+017F, map to ASCII).
\<close>

definition char_upper :: "char \<Rightarrow> char" where
  "char_upper c =
     (let n = (of_char c :: nat) in if 97 \<le> n \<and> n \<le> 122 then char_of (n - 32) else c)"

definition char_lower :: "char \<Rightarrow> char" where
  "char_lower c =
     (let n = (of_char c :: nat) in if 65 \<le> n \<and> n \<le> 90 then char_of (n + 32) else c)"

definition upper :: "string \<Rightarrow> string" where
  "upper s = map char_upper s"

definition lower :: "string \<Rightarrow> string" where
  "lower s = map char_lower s"

text \<open>\<open>startswith p s\<close> is Python's \<open>s.startswith(p)\<close>.\<close>

fun startswith :: "string \<Rightarrow> string \<Rightarrow> bool" where
  "startswith [] s = True"
| "startswith (p # ps) [] = False"
| "startswith (p # ps) (c # cs) = (p = c \<and> startswith ps cs)"

text \<open>\<open>py_in sub s\<close> is Python's \<open>sub in s\<close> on strings.\<close>

fun py_in :: "string \<Rightarrow> string \<Rightarrow> bool" where
  "py_in sub [] = (sub = [])"
| "py_in sub (c # cs) = (startswith sub (c # cs) \<or> py_in sub cs)"

text \<open>\<open>replace_char c r s\<close> is Python's \<open>s.replace(c, r)\<close> for a one-character \<open>c\<close>.\<close>

definition replace_char :: "char \<Rightarrow> string \<Rightarrow> string \<Rightarrow> string" where
  "replace_char c r s = concat (map (\<lambda>x. if x = c then r else [x]) s)"

text \<open>Truthiness of an optional string: \<open>None\<close> and the empty string are falsy.\<close>

fun truthy_str :: "string option \<Rightarrow> bool" where
  "truthy_str None = False"
| "truthy_str (Some s) = (s \<noteq> [])"

section \<open>services/jdownloader.py: package-name normalisation\<close>

text \<open>
  \<open>JD_CHAR_REPLACEMENTS\<close>, in the dictionary's insertion order. The backslash is
  \<open>CHR 0x5C\<close>, the double quote \<open>CHR 0x22\<close>; the fraction slash U+2044 is the three
  bytes E2 81 84.
\<close>

definition JD_CHAR_REPLACEMENTS :: "(char \<times> string) list" where
  "JD_CHAR_REPLACEMENTS =
     [(CHR '':'', '';''),
      (CHR ''/'', [CHR 0xE2, CHR 0x81, CHR 0x84]),
      (CHR 0x5C, ''''),
      (CHR ''*'', ''''),
      (CHR ''?'', ''''),
      (CHR 0x22, [CHR 0x27]),
      (CHR ''<'', ''(''),
      (CHR ''>'', '')''),
      (CHR ''|'', ''-'')]"

text \<open>The \<open>for\<close> loop of \<open>normalize_jd_name\<close>: one \<open>replace\<close> per table entry, in order.\<close>

definition normalize_jd_name :: "string \<Rightarrow> string" where
  "normalize_jd_name name = fold (\<lambda>(c, r) n. replace_char c r n) JD_CHAR_REPLACEMENTS name"

section \<open>models/download.py: the Download entity\<close>

datatype DownloadStatus = QUEUED | DOWNLOADING | PAUSED | COMPLETED | FAILED | EXTRACTING

text \<open>A \<open>datetime\<close> is a number of microseconds; so is a \<open>timedelta\<close>.\<close>

type_synonym datetime = int

definition timedelta_hours :: "int \<Rightarrow> int" where
  "timedelta_hours h = h * 3600 * 1000000"

text \<open>
  The pydantic model \<open>Download\<close>. The field \<open>id\<close> is \<open>dl_id\<close> here; the float
  \<open>progress\<close> is a rational.
\<close>

record download =
  dl_id :: string
  nzo_id :: string
  title :: string
  category :: string
  source_url :: string
  download_links :: "string list"
  jd_package_id :: "int option"
  jd_uuid :: "string option"
  jd_package_name :: "string option"
  status :: DownloadStatus
  progress :: rat
  size_total :: int
  size_downloaded :: int
  speed :: int
  eta :: int
  output_path :: "string option"
  files :: "string list"
  created_at :: datetime
  completed_at :: "datetime option"
  error_message :: "string option"

section \<open>services/downloads.py: the download store and its views\<close>

text \<open>
  \<open>DownloadManager._downloads\<close> is a dictionary from the internal id to the Download;
  a Python dictionary keeps insertion order, so it is an association list here, whose keys
  are distinct in every dictionary.
\<close>

type_synonym store = "(string \<times> download) list"


text \<open>\<open>del d[k]\<close> for a key that is present.\<close>

definition dict_del :: "string \<Rightarrow> store \<Rightarrow> store" where
  "dict_del k ds = filter (\<lambda>(k', dl). k' \<noteq> k) ds"


definition active_statuses :: "DownloadStatus set" where
  "active_statuses = {QUEUED, DOWNLOADING, PAUSED, EXTRACTING}"




section \<open>services/downloads.py: stale-entry cleanup\<close>

text \<open>
  What \<open>cleanup_stale_downloads\<close> reads from the file system: \<open>os.path.exists\<close>,
  \<open>os.path.isdir\<close> and \<open>os.listdir\<close>, as they answer during one pass.
\<close>

record filesystem =
  path_exists :: "string \<Rightarrow> bool"
  path_isdir :: "string \<Rightarrow> bool"
  listdir :: "string \<Rightarrow> string list"

text \<open>The body of the first loop: the value of \<open>should_remove\<close> for one entry.\<close>

definition should_remove :: "filesystem \<Rightarrow> datetime \<Rightarrow> download \<Rightarrow> bool" where
  "should_remove fs now dl =
     (if status dl = COMPLETED then
        (case output_path dl of
           None \<Rightarrow> False
         | Some p \<Rightarrow>
             if p = [] then False
             else if \<not> path_exists fs p then True
             else if path_isdir fs p then
               length (filter (\<lambda>f. \<not> startswith ''.'' f) (listdir fs p)) = 0
             else False)
      else if status dl = FAILED then now - created_at dl > timedelta_hours 24
      else False)"

text \<open>
  The pass: collect the keys to remove, delete each of them, return the new store and the
  number of entries removed.
\<close>

definition cleanup_stale_downloads :: "filesystem \<Rightarrow> datetime \<Rightarrow> store \<Rightarrow> store \<times> nat" where
  "cleanup_stale_downloads fs now ds =
     (let to_remove = map fst (filter (\<lambda>(dl_id, dl). should_remove fs now dl) ds)
      in (fold dict_del to_remove ds, length to_remove))"

section \<open>Decimal rendering of integers\<close>

definition digit_char :: "nat \<Rightarrow> char" where
  "digit_char d = char_of (48 + d)"

function str_nat :: "nat \<Rightarrow> string" where
  "str_nat n = (if n < 10 then [digit_char n] else str_nat (n div 10) @ [digit_char (n mod 10)])"
  by pat_completeness auto
termination
  by (relation "measure (\<lambda>n. n)") auto

text \<open>Python's \<open>str(i)\<close> for an integer, and \<open>str(x)\<close> for an integer or \<open>None\<close>.\<close>

definition str_int :: "int \<Rightarrow> string" where
  "str_int i = (if i < 0 then CHR ''-'' # str_nat (nat (- i)) else str_nat (nat i))"

fun str_opt_int :: "int option \<Rightarrow> string" where
  "str_opt_int None = ''None''"
| "str_opt_int (Some i) = str_int i"

section \<open>services/jdownloader.py: package status\<close>

text \<open>
  A package as \<open>query_packages\<close> returns it, each field read the way
  \<open>_package_to_status\<close> reads it (\<open>pkg.get(key, default)\<close>).
\<close>

record package =
  pkg_uuid :: "int option"
  pkg_name :: string
  pkg_status :: string
  bytesLoaded :: int
  bytesTotal :: int
  pkg_speed :: int
  pkg_eta :: int
  pkg_finished :: bool
  pkg_running :: bool
  saveTo :: string

text \<open>The status dictionary built by \<open>_package_to_status\<close>.\<close>

record package_status =
  st_uuid :: string
  st_name :: string
  st_status :: string
  bytes_loaded :: int
  bytes_total :: int
  st_speed :: int
  st_eta :: int
  finished :: bool
  running :: bool
  save_to :: string

definition package_to_status :: "package \<Rightarrow> package_status" where
  "package_to_status pkg =
     \<lparr>st_uuid = str_opt_int (pkg_uuid pkg),
      st_name = pkg_name pkg,
      st_status = pkg_status pkg,
      bytes_loaded = bytesLoaded pkg,
      bytes_total = bytesTotal pkg,
      st_speed = pkg_speed pkg,
      st_eta = pkg_eta pkg,
      finished = pkg_finished pkg,
      running = pkg_running pkg,
      save_to = saveTo pkg\<rparr>"

text \<open>\<open>truthy_eq x s\<close> is the Python test \<open>x and s == x\<close>.\<close>

fun truthy_eq :: "string option \<Rightarrow> string \<Rightarrow> bool" where
  "truthy_eq None s = False"
| "truthy_eq (Some x) s = (x \<noteq> [] \<and> s = x)"

text \<open>
  The loop of \<open>get_package_status\<close> over the packages, with the identifier searched for
  and the normalised name searched for.
\<close>

fun find_package :: "string option \<Rightarrow> string option \<Rightarrow> package list \<Rightarrow> package_status option" where
  "find_package uuid nname [] = None"
| "find_package uuid nname (pkg # pkgs) =
     (if truthy_eq uuid (str_opt_int (pkg_uuid pkg)) then Some (package_to_status pkg)
      else if truthy_eq nname (pkg_name pkg) then Some (package_to_status pkg)
      else find_package uuid nname pkgs)"

text \<open>
  \<open>get_package_status(uuid, name)\<close> on the package list that \<open>get_packages\<close> returned
  (the empty list when the agent cannot be reached).
\<close>

definition get_package_status ::
  "string option \<Rightarrow> string option \<Rightarrow> package list \<Rightarrow> package_status option" where
  "get_package_status uuid name packages =
     (let normalized_search_name =
            (case name of
               None \<Rightarrow> None
             | Some n \<Rightarrow> if n \<noteq> [] then Some (normalize_jd_name n) else None)
      in find_package uuid normalized_search_name packages)"

section \<open>services/jdownloader.py: submitting links\<close>

text \<open>
  One call of \<open>linkgrabber.add_links\<close>: it loses the connection
  (\<open>MYJDConnectionException\<close>), raises something else, or returns; a returned result is
  falsy (\<open>None\<close>) or a dictionary, of which only the entry \<open>id\<close> is read.
\<close>

datatype jd_call = ConnectionLost | OtherException | Returned "int option option"

text \<open>What \<open>add_links\<close> makes of a returned result.\<close>

fun result_id :: "int option option \<Rightarrow> string option" where
  "result_id None = None"
| "result_id (Some i) = Some (str_opt_int i)"

text \<open>
  \<open>add_links\<close>, given the outcome of \<open>connect\<close> and of the call, and of the second
  \<open>connect\<close> and call made after a lost connection.
\<close>

definition add_links :: "bool \<Rightarrow> jd_call \<Rightarrow> bool \<Rightarrow> jd_call \<Rightarrow> string option" where
  "add_links connect_ok call reconnect_ok call2 =
     (if \<not> connect_ok then None
      else case call of
          Returned r \<Rightarrow> result_id r
        | OtherException \<Rightarrow> None
        | ConnectionLost \<Rightarrow>
            if reconnect_ok then (case call2 of Returned r \<Rightarrow> result_id r | _ \<Rightarrow> None)
            else None)"

section \<open>services/downloads.py: starting a download and polling its progress\<close>

definition msg_no_links :: string where
  "msg_no_links =
     ''Aucun lien de t'' @ [CHR 0xC3, CHR 0xA9] @ ''l'' @ [CHR 0xC3, CHR 0xA9] @ ''chargement''"

definition msg_add_failed :: string where
  "msg_add_failed =
     [CHR 0xC3, CHR 0x89] @ ''chec ajout '' @ [CHR 0xC3, CHR 0xA0] @ '' JDownloader''"

text \<open>
  \<open>start_download\<close>: \<open>out\<close> is \<open>settings.output_path\<close>, \<open>uuid\<close> is what
  \<open>jd.add_links\<close> returned. The result is the returned flag and the updated Download.
\<close>

definition start_download :: "string \<Rightarrow> string option \<Rightarrow> download \<Rightarrow> bool \<times> download" where
  "start_download out uuid d =
     (if download_links d = [] then
        (False, d\<lparr>status := FAILED, error_message := Some msg_no_links\<rparr>)
      else
        let base_folder = out @ ''/'' @ category d;
            output_folder = base_folder @ ''/'' @ title d
        in if truthy_str uuid then
             (True, d\<lparr>jd_uuid := uuid, status := DOWNLOADING, output_path := Some output_folder\<rparr>)
           else
             (False, d\<lparr>status := FAILED, error_message := Some msg_add_failed\<rparr>))"

text \<open>
  The first half of \<open>update_progress\<close>: the lookup of the package status. \<open>pkgs1\<close> is
  the agent's package list at the lookup by identifier, \<open>pkgs2\<close> at the lookup by name.
  The result is \<open>status\<close> and the Download, whose \<open>jd_uuid\<close> may have been replaced.
\<close>

definition resolve_status ::
  "package list \<Rightarrow> package list \<Rightarrow> download \<Rightarrow> package_status option \<times> download" where
  "resolve_status pkgs1 pkgs2 d =
     (let status = (if truthy_str (jd_uuid d) then get_package_status (jd_uuid d) None pkgs1
                    else None)
      in if status = None \<and> truthy_str (jd_package_name d) then
           (case get_package_status None (jd_package_name d) pkgs2 of
              None \<Rightarrow> (None, d)
            | Some st \<Rightarrow> (Some st, d\<lparr>jd_uuid := Some (st_uuid st)\<rparr>))
         else (status, d))"

text \<open>
  The second half of \<open>update_progress\<close>, run when a status was found, statement by
  statement: the counters, the output folder, the percentage, then the status.
\<close>

definition copy_counters :: "package_status \<Rightarrow> download \<Rightarrow> download" where
  "copy_counters st d =
     d\<lparr>size_total := bytes_total st,
       size_downloaded := bytes_loaded st,
       speed := st_speed st,
       eta := (if st_eta st > 0 then st_eta st else 0)\<rparr>"

definition copy_save_to :: "package_status \<Rightarrow> download \<Rightarrow> download" where
  "copy_save_to st d = (if save_to st \<noteq> [] then d\<lparr>output_path := Some (save_to st)\<rparr> else d)"

definition compute_percentage :: "download \<Rightarrow> download" where
  "compute_percentage d =
     (if size_total d > 0 then
        d\<lparr>progress := of_int (size_downloaded d) / of_int (size_total d) * 100\<rparr>
      else d)"

text \<open>
  \<open>file_names\<close> are the names (\<open>f.get("name", "")\<close>) of what \<open>get_package_files\<close>
  returned; they are asked for only when the package is finished.
\<close>

definition determine_status ::
  "datetime \<Rightarrow> string list \<Rightarrow> package_status \<Rightarrow> download \<Rightarrow> download" where
  "determine_status now file_names st d =
     (if finished st then
        let d' = d\<lparr>status := COMPLETED, completed_at := Some now, progress := 100\<rparr>
        in if truthy_str (jd_uuid d') \<and> save_to st \<noteq> [] then
             (case file_names of
                [] \<Rightarrow> d'
              | filename # _ \<Rightarrow>
                  if filename \<noteq> [] then d'\<lparr>output_path := Some (save_to st)\<rparr> else d')
           else d'
      else if running st then d\<lparr>status := DOWNLOADING\<rparr>
      else
        let jd_status = lower (st_status st)
        in if py_in ''extract'' jd_status then d\<lparr>status := EXTRACTING\<rparr>
           else if py_in ''queue'' jd_status \<or> py_in ''wait'' jd_status then
             d\<lparr>status := QUEUED\<rparr>
           else d)"

definition apply_status :: "datetime \<Rightarrow> string list \<Rightarrow> package_status \<Rightarrow> download \<Rightarrow> download" where
  "apply_status now file_names st d =
     determine_status now file_names st (compute_percentage (copy_save_to st (copy_counters st d)))"

definition update_progress ::
  "datetime \<Rightarrow> package list \<Rightarrow> package list \<Rightarrow> string list \<Rightarrow> download \<Rightarrow> download" where
  "update_progress now pkgs1 pkgs2 file_names download =
     (case resolve_status pkgs1 pkgs2 download of
        (None, d) \<Rightarrow> d
      | (Some st, d) \<Rightarrow> apply_status now file_names st d)"

section \<open>Stale entries, in the words of the specification\<close>

text \<open>
  The two kinds of stale entry. A completed Download is consumed when it has an output path
  that no longer exists, or that is a directory holding nothing but entries whose name
  starts with a dot. A failed Download is expired when it was created more than 24 hours
  before the pass.
\<close>

definition consumed :: "filesystem \<Rightarrow> download \<Rightarrow> bool" where
  "consumed fs dl \<longleftrightarrow>
     status dl = COMPLETED \<and>
     (case output_path dl of
        None \<Rightarrow> False
      | Some p \<Rightarrow>
          p \<noteq> [] \<and>
          (\<not> path_exists fs p \<or>
           path_isdir fs p \<and> list_all (\<lambda>f. startswith ''.'' f) (listdir fs p)))"

definition expired :: "datetime \<Rightarrow> download \<Rightarrow> bool" where
  "expired now dl \<longleftrightarrow> status dl = FAILED \<and> timedelta_hours 24 < now - created_at dl"

section \<open>Example inputs\<close>

text \<open>A store and a file system to run the pass on.\<close>

definition example_download :: download where
  "example_download =
     \<lparr>dl_id = ''a'', nzo_id = ''SABnzbd_nzo_a'', title = ''Test Movie (2024) Bluray-2160p'',
      category = ''radarr'', source_url = ''darkiworld://link/7'',
      download_links = [''https://1fichier.com/?abc''],
      jd_package_id = None, jd_uuid = Some ''7'',
      jd_package_name = Some ''[RADARR] Test Movie (2024) Bluray-2160p'',
      status = DOWNLOADING, progress = 0, size_total = 0, size_downloaded = 0, speed = 0,
      eta = 0, output_path = Some ''/output/radarr/x'', files = [], created_at = 0,
      completed_at = None, error_message = None\<rparr>"

definition example_fs :: filesystem where
  "example_fs =
     \<lparr>path_exists = (\<lambda>p. p = ''/output/radarr/x''),
      path_isdir = (\<lambda>p. p = ''/output/radarr/x''),
      listdir = (\<lambda>p. if p = ''/output/radarr/x'' then [''.nfo''] else [])\<rparr>"

definition example_store :: store where
  "example_store =
     [(''a'', example_download),
      (''b'', example_download\<lparr>dl_id := ''b'', status := COMPLETED\<rparr>),
      (''c'', example_download\<lparr>dl_id := ''c'', status := COMPLETED,
                               output_path := Some ''/output/radarr/gone''\<rparr>),
      (''d'', example_download\<lparr>dl_id := ''d'', status := FAILED\<rparr>),
      (''e'', example_download\<lparr>dl_id := ''e'', status := FAILED,
                               created_at := timedelta_hours 1\<rparr>)]"

definition example_package :: package where
  "example_package =
     \<lparr>pkg_uuid = Some 7, pkg_name = ''[RADARR] Test Movie (2024) Bluray-2160p'',
      pkg_status = ''Finished'', bytesLoaded = 2000, bytesTotal = 2000, pkg_speed = 0,
      pkg_eta = - 1, pkg_finished = True, pkg_running = False, saveTo = ''/x''\<rparr>"

section \<open>More of Python's strings\<close>

text \<open>\<open>join sep xs\<close> is Python's \<open>sep.join(xs)\<close>.\<close>

fun join :: "string \<Rightarrow> string list \<Rightarrow> string" where
  "join sep [] = []"
| "join sep [x] = x"
| "join sep (x # y # ys) = x @ sep @ join sep (y # ys)"

text \<open>
  \<open>replace_str old new s\<close> is Python's \<open>s.replace(old, new)\<close> for a non-empty
  \<open>old\<close>: the occurrences are replaced from the left, without overlap.
\<close>

function replace_str :: "string \<Rightarrow> string \<Rightarrow> string \<Rightarrow> string" where
  "replace_str old new [] = []"
| "replace_str old new (c # cs) =
     (if old \<noteq> [] \<and> startswith old (c # cs)
      then new @ replace_str old new (drop (length old) (c # cs))
      else c # replace_str old new cs)"
  by pat_completeness auto
termination
  by (relation "measure (\<lambda>(old, new, s). length s)") auto

text \<open>The format \<open>{n:02d}\<close>: at least two characters, padded with a zero.\<close>

definition format_02d :: "int \<Rightarrow> string" where
  "format_02d n = (if 0 \<le> n \<and> n < 10 then CHR ''0'' # str_int n else str_int n)"

definition is_digit :: "char \<Rightarrow> bool" where
  "is_digit c = (let n = (of_char c :: nat) in 48 \<le> n \<and> n \<le> 57)"

text \<open>The ASCII characters that \<open>\s\<close> matches.\<close>

definition is_space :: "char \<Rightarrow> bool" where
  "is_space c = (let n = (of_char c :: nat) in (9 \<le> n \<and> n \<le> 13) \<or> (28 \<le> n \<and> n \<le> 32))"

definition digits_value :: "string \<Rightarrow> nat" where
  "digits_value ds = fold (\<lambda>c n. 10 * n + (of_char c - 48)) ds 0"

text \<open>
  Python's \<open>float(s)\<close> on a string of digits and dots, which is all that
  \<open>extract_size_from_nfo\<close> passes to it: \<open>None\<close> is the \<open>ValueError\<close>. A float is
  modelled as the rational the string denotes, so the rounding to a double is left out; it
  plays no part for the values of \<open>estimate_file_size\<close>, where the double and the
  rational give the same integer.
\<close>

definition py_float :: "string \<Rightarrow> rat option" where
  "py_float s =
     (let ip = takeWhile is_digit s; rest = dropWhile is_digit s
      in case rest of
           [] \<Rightarrow> if ip = [] then None else Some (of_nat (digits_value ip))
         | c # fp \<Rightarrow>
             if c = CHR ''.'' \<and> list_all is_digit fp \<and> (ip \<noteq> [] \<or> fp \<noteq> [])
             then Some (of_nat (digits_value ip) + of_nat (digits_value fp) / 10 ^ length fp)
             else None)"

text \<open>Python's \<open>int(x)\<close> on a float: truncation towards zero.\<close>

definition py_int :: "rat \<Rightarrow> int" where
  "py_int x = (if 0 \<le> x then \<lfloor>x\<rfloor> else \<lceil>x\<rceil>)"

section \<open>models/indexer.py: media types\<close>

datatype MediaType = MOVIE | TV | MUSIC

section \<open>api/newznab.py: qualities and languages\<close>

definition QUALITY_MAPPING :: "(string \<times> string) list" where
  "QUALITY_MAPPING =
     [(''ULTRA HD (x265)'', ''Bluray-2160p''),
      (''ULTRA HD'', ''Bluray-2160p''),
      (''UHD (x265)'', ''Bluray-2160p''),
      (''UHD'', ''Bluray-2160p''),
      (''Ultra HDLight (x265)'', ''WEBDL-2160p''),
      (''Ultra HDLight'', ''WEBDL-2160p''),
      (''REMUX UHD'', ''Bluray-2160p Remux''),
      (''REMUX 4K'', ''Bluray-2160p Remux''),
      (''REMUX BLURAY 2160p'', ''Bluray-2160p Remux''),
      (''4K'', ''WEBDL-2160p''),
      (''2160p'', ''WEBDL-2160p''),
      (''REMUX BLURAY'', ''Bluray-1080p Remux''),
      (''REMUX'', ''Bluray-1080p Remux''),
      (''REMUX 1080p'', ''Bluray-1080p Remux''),
      (''Bluray 1080p'', ''Bluray-1080p''),
      (''Bluray'', ''Bluray-1080p''),
      (''BDRip 1080p'', ''Bluray-1080p''),
      (''BRRip 1080p'', ''Bluray-1080p''),
      (''HDLight 1080p (x265)'', ''WEBDL-1080p''),
      (''HDLight 1080p'', ''WEBDL-1080p''),
      (''WEB 1080p'', ''WEBDL-1080p''),
      (''WEB-DL 1080p'', ''WEBDL-1080p''),
      (''WEBDL 1080p'', ''WEBDL-1080p''),
      (''WEBRip 1080p'', ''WEBRip-1080p''),
      (''1080p'', ''WEBDL-1080p''),
      (''Bluray 720p'', ''Bluray-720p''),
      (''HDLight 720p (x265)'', ''WEBDL-720p''),
      (''HDLight 720p'', ''WEBDL-720p''),
      (''WEB-DL 720p'', ''WEBDL-720p''),
      (''WEBRip 720p'', ''WEBRip-720p''),
      (''720p'', ''WEBDL-720p''),
      (''DVDRIP'', ''DVD''),
      (''DVDRip'', ''DVD''),
      (''DVD'', ''DVD''),
      (''HDTV 1080p'', ''HDTV-1080p''),
      (''HDTV 720p'', ''HDTV-720p''),
      (''HDTV'', ''HDTV-1080p''),
      (''Blu-Ray 3D'', ''Bluray-1080p''),
      (''REMUX 3D'', ''Bluray-1080p Remux''),
      (''ISO'', ''BR-DISK''),
      (''Autre'', ''WEBDL-1080p'')]"

definition normalize_quality :: "string \<Rightarrow> string" where
  "normalize_quality raw_quality =
     (if raw_quality = [] \<or> raw_quality = ''Unknown'' then ''WEBDL-1080p''
      else case map_of QUALITY_MAPPING raw_quality of
          Some q \<Rightarrow> q
        | None \<Rightarrow>
            let quality_lower = lower raw_quality;
                resolution =
                  (if py_in ''2160'' quality_lower \<or> py_in ''4k'' quality_lower \<or>
                      py_in ''uhd'' quality_lower \<or> py_in ''ultra hd'' quality_lower
                   then ''2160p''
                   else if py_in ''1080'' quality_lower then ''1080p''
                   else if py_in ''720'' quality_lower then ''720p''
                   else if py_in ''480'' quality_lower \<or> py_in ''sd'' quality_lower then ''480p''
                   else ''1080p'')
            in if py_in ''remux'' quality_lower then ''Remux-'' @ resolution
               else if py_in ''bluray'' quality_lower \<or> py_in ''bdrip'' quality_lower \<or>
                       py_in ''brrip'' quality_lower then ''Bluray-'' @ resolution
               else if py_in ''webrip'' quality_lower then ''WEBRip-'' @ resolution
               else if py_in ''hdlight'' quality_lower \<or> py_in ''web-dl'' quality_lower \<or>
                       py_in ''webdl'' quality_lower \<or> py_in ''web '' quality_lower
                 then ''WEBDL-'' @ resolution
               else if py_in ''hdtv'' quality_lower then ''HDTV-'' @ resolution
               else if py_in ''dvd'' quality_lower then ''DVD''
               else ''WEBDL-'' @ resolution)"

definition lang_map :: "(string \<times> string) list" where
  "lang_map =
     [(''French'', ''FRENCH''),
      (''TrueFrench'', ''TRUEFRENCH''),
      (''VFF'', ''VFF''),
      (''VFQ'', ''VFQ''),
      (''VFI'', ''VFI''),
      (''VF2'', ''VF2''),
      (''English'', ''ENGLISH''),
      (''German'', ''GERMAN''),
      (''Spanish'', ''SPANISH''),
      (''Italian'', ''ITALIAN''),
      (''Portuguese'', ''PORTUGUESE''),
      (''Russian'', ''RUSSIAN''),
      (''Japanese'', ''JAPANESE''),
      (''Korean'', ''KOREAN''),
      (''Chinese'', ''CHINESE''),
      (''Arabic'', ''ARABIC''),
      (''Hindi'', ''HINDI''),
      (''French (Canada)'', ''VFQ''),
      (''MULTI'', ''MULTI''),
      (''MULTi'', ''MULTI'')]"

definition normalize_language :: "string \<Rightarrow> string" where
  "normalize_language lang =
     (case map_of lang_map lang of
        Some l \<Rightarrow> l
      | None \<Rightarrow> replace_char CHR '' '' [] (upper lang))"

section \<open>api/newznab.py: the size, from the NFO or estimated\<close>

text \<open>
  The two patterns of \<open>extract_size_from_nfo\<close>,
  \<open>File\s*size\s*:\s*([\d.,]+)\s*(GiB|GB|MiB|MB)\<close> and
  \<open>Size\s*:\s*([\d.,]+)\s*(GiB|GB|MiB|MB)\<close>, searched without regard to case. No
  piece of either pattern can match where the piece before it could have matched more, so
  matching each piece greedily from a start position finds the match at that position if
  there is one. \<open>match_ci p s\<close> matches the literal \<open>p\<close> at the start of \<open>s\<close> and
  returns the rest.
\<close>

fun match_ci :: "string \<Rightarrow> string \<Rightarrow> string option" where
  "match_ci [] s = Some s"
| "match_ci (p # ps) [] = None"
| "match_ci (p # ps) (c # cs) = (if char_lower c = char_lower p then match_ci ps cs else None)"

definition skip_space :: "string \<Rightarrow> string" where
  "skip_space s = dropWhile is_space s"

definition is_size_char :: "char \<Rightarrow> bool" where
  "is_size_char c = (is_digit c \<or> c = CHR ''.'' \<or> c = CHR '','')"

text \<open>The group \<open>(GiB|GB|MiB|MB)\<close>: the text it matched.\<close>

definition match_unit :: "string \<Rightarrow> string option" where
  "match_unit s =
     (if match_ci ''GiB'' s \<noteq> None then Some (take 3 s)
      else if match_ci ''GB'' s \<noteq> None then Some (take 2 s)
      else if match_ci ''MiB'' s \<noteq> None then Some (take 3 s)
      else if match_ci ''MB'' s \<noteq> None then Some (take 2 s)
      else None)"

text \<open>\<open>\s*([\d.,]+)\s*(GiB|GB|MiB|MB)\<close>: the two groups.\<close>

definition match_number_unit :: "string \<Rightarrow> (string \<times> string) option" where
  "match_number_unit s =
     (let s1 = skip_space s;
          number = takeWhile is_size_char s1;
          rest = dropWhile is_size_char s1
      in if number = [] then None
         else case match_unit (skip_space rest) of
             None \<Rightarrow> None
           | Some unit \<Rightarrow> Some (number, unit))"

definition match_file_size :: "string \<Rightarrow> (string \<times> string) option" where
  "match_file_size s =
     (case match_ci ''File'' s of
        None \<Rightarrow> None
      | Some r1 \<Rightarrow>
          (case match_ci ''size'' (skip_space r1) of
             None \<Rightarrow> None
           | Some r2 \<Rightarrow>
               (case match_ci '':'' (skip_space r2) of
                  None \<Rightarrow> None
                | Some r3 \<Rightarrow> match_number_unit r3)))"

definition match_size :: "string \<Rightarrow> (string \<times> string) option" where
  "match_size s =
     (case match_ci ''Size'' s of
        None \<Rightarrow> None
      | Some r1 \<Rightarrow>
          (case match_ci '':'' (skip_space r1) of
             None \<Rightarrow> None
           | Some r2 \<Rightarrow> match_number_unit r2))"

text \<open>\<open>re.search\<close>: the match at the leftmost position that has one.\<close>

fun re_search :: "(string \<Rightarrow> 'a option) \<Rightarrow> string \<Rightarrow> 'a option" where
  "re_search m [] = m []"
| "re_search m (c # cs) = (case m (c # cs) of Some r \<Rightarrow> Some r | None \<Rightarrow> re_search m cs)"

text \<open>The body of the loop over the patterns, for one match: \<open>None\<close> is \<open>continue\<close>.\<close>

definition size_of_match :: "string \<times> string \<Rightarrow> int option" where
  "size_of_match m =
     (let size_str = replace_char CHR '','' ''.'' (fst m);
          unit = upper (snd m)
      in case py_float size_str of
           None \<Rightarrow> None
         | Some size_float \<Rightarrow>
             if unit = ''GIB'' \<or> unit = ''GB'' then Some (py_int (size_float * 1024 * 1024 * 1024))
             else if unit = ''MIB'' \<or> unit = ''MB'' then Some (py_int (size_float * 1024 * 1024))
             else None)"

fun size_patterns_loop :: "(string \<Rightarrow> (string \<times> string) option) list \<Rightarrow> string \<Rightarrow> int option" where
  "size_patterns_loop [] nfo_text = None"
| "size_patterns_loop (pattern # patterns) nfo_text =
     (case re_search pattern nfo_text of
        None \<Rightarrow> size_patterns_loop patterns nfo_text
      | Some m \<Rightarrow>
          (case size_of_match m of
             Some n \<Rightarrow> Some n
           | None \<Rightarrow> size_patterns_loop patterns nfo_text))"

text \<open>
  \<open>extract_size_from_nfo\<close>; \<open>nfo_data\<close> is the list of the NFO texts
  (\<open>entry.get("nfo", "")\<close> of each entry).
\<close>

definition extract_size_from_nfo :: "string list \<Rightarrow> int option" where
  "extract_size_from_nfo nfo_data =
     (case nfo_data of
        [] \<Rightarrow> None
      | nfo_text # _ \<Rightarrow>
          if nfo_text = [] then None
          else size_patterns_loop [match_file_size, match_size] nfo_text)"

definition size_map :: "(string \<times> rat \<times> rat) list" where
  "size_map =
     [(''REMUX UHD'', 50, 70),
      (''REMUX 4K'', 50, 70),
      (''ULTRA HD'', 7, 15),
      (''UHD'', 7, 15),
      (''2160'', 6, 12),
      (''REMUX'', 25, 40),
      (''BLURAY 1080'', 4, 10),
      (''1080'', 2, 5),
      (''HDLIGHT 1080'', 3 / 2, 4),
      (''720'', 1, 5 / 2),
      (''HDLIGHT 720'', 4 / 5, 2),
      (''DVD'', 7 / 10, 3 / 2),
      (''480'', 1 / 2, 6 / 5)]"

text \<open>
  The loop over \<open>size_map\<close>: the sizes (episode, movie) of the first pattern that occurs
  in the upper-cased quality, the defaults when none does.
\<close>

definition base_sizes :: "string \<Rightarrow> rat \<times> rat" where
  "base_sizes quality_upper =
     (case find (\<lambda>(pattern, sizes). py_in pattern quality_upper) size_map of
        Some (pattern, sizes) \<Rightarrow> sizes
      | None \<Rightarrow> (3 / 2, 4))"

definition estimate_file_size :: "string \<Rightarrow> MediaType option \<Rightarrow> bool \<Rightarrow> int" where
  "estimate_file_size quality media_type is_season_pack =
     (let quality_upper = upper quality;
          episode_size_gb = fst (base_sizes quality_upper);
          movie_size_gb = snd (base_sizes quality_upper);
          size_gb =
            (if media_type = Some TV then
               (if is_season_pack then episode_size_gb * 10 else episode_size_gb)
             else if media_type = Some MUSIC then 1 / 2
             else movie_size_gb)
      in py_int (size_gb * 1024 * 1024 * 1024))"

section \<open>services/darkiworld.py: the Link as \<open>_parse_link\<close> returns it\<close>

text \<open>
  The dictionary built by \<open>_parse_link\<close>, with the keys that the ranking and the result
  items read. The key \<open>id\<close> is \<open>link_id\<close>, \<open>title\<close> is \<open>link_title\<close>, \<open>size\<close> is
  \<open>link_size\<close>; \<open>nfo\<close> holds the NFO texts; \<open>download_url\<close> is set by the
  verification.
\<close>

record link =
  link_id :: "int option"
  title_id :: int
  link_title :: string
  year :: "int option"
  quality :: string
  host :: string
  audio_languages :: "string list"
  subtitles :: "string list"
  link_size :: int
  season :: "int option"
  episode :: "int option"
  nfo :: "string list"
  download_url :: "string option"

section \<open>api/newznab.py: the release title\<close>

text \<open>
  \<open>extract_edition_from_nfo\<close>. The search of the NFO text for the first of the edition
  patterns that matches is the parameter \<open>edition_search\<close>, which returns the text
  matched by the group; what the code does with the match is modelled.
\<close>

definition extract_edition_from_nfo :: "(string \<Rightarrow> string option) \<Rightarrow> string list \<Rightarrow> string option" where
  "extract_edition_from_nfo edition_search nfo_data =
     (case nfo_data of
        [] \<Rightarrow> None
      | nfo_text # _ \<Rightarrow>
          if nfo_text = [] then None
          else (case edition_search nfo_text of
                  None \<Rightarrow> None
                | Some m \<Rightarrow>
                    let edition = replace_char (CHR 0x27) [] (replace_char CHR ''.'' '' '' (upper m));
                        edition = replace_str ''DIRECTORS CUT'' (''DIRECTOR'' @ [CHR 0x27] @ ''S CUT'') edition;
                        edition = replace_str ''DIRECTORSCUT'' (''DIRECTOR'' @ [CHR 0x27] @ ''S CUT'') edition
                    in Some edition))"

text \<open>The audio languages as they enter the title.\<close>

definition audio_part :: "string list \<Rightarrow> string list" where
  "audio_part audio_normalized =
     (case audio_normalized of
        [] \<Rightarrow> []
      | first # _ \<Rightarrow>
          if length audio_normalized > 1 \<or>
             (length audio_normalized = 1 \<and> first \<notin> set [''FRENCH'', ''TRUEFRENCH''])
          then [join ''+'' audio_normalized]
          else if first \<in> set [''TRUEFRENCH'', ''VFF'', ''VFQ''] then [first]
          else [])"

text \<open>The season and episode, or the year, as they enter the title.\<close>

definition episode_or_year_part :: "link \<Rightarrow> MediaType option \<Rightarrow> string list" where
  "episode_or_year_part l media_type =
     (case (if media_type = Some TV then season l else None) of
        Some s \<Rightarrow>
          (case episode l of
             None \<Rightarrow> [''S'' @ format_02d s]
           | Some e \<Rightarrow>
               if e > 0 then [''S'' @ format_02d s @ ''E'' @ format_02d e]
               else [''S'' @ format_02d s])
      | None \<Rightarrow>
          (case year l of
             None \<Rightarrow> []
           | Some y \<Rightarrow> if y \<noteq> 0 then [''('' @ str_int y @ '')''] else []))"

text \<open>\<open>build_release_title\<close> returns the pair (display title, clean title).\<close>

definition build_release_title ::
  "(string \<Rightarrow> string option) \<Rightarrow> link \<Rightarrow> string list \<Rightarrow> MediaType option \<Rightarrow> string \<times> string" where
  "build_release_title edition_search l nfo_data media_type =
     (let edition =
            (if media_type \<noteq> Some TV then
               (if nfo_data \<noteq> [] then extract_edition_from_nfo edition_search nfo_data else None)
             else None);
          quality_normalized = normalize_quality (quality l);
          audio_normalized = map normalize_language (take 3 (audio_languages l));
          parts = [link_title l] @ episode_or_year_part l media_type
            @ (case edition of None \<Rightarrow> [] | Some e \<Rightarrow> if e \<noteq> [] then [e] else [])
            @ audio_part audio_normalized
            @ [quality_normalized]
            @ (if subtitles l \<noteq> [] then
                 [''[Subs: '' @ join ''+'' (map normalize_language (take 2 (subtitles l))) @ '']'']
               else []);
          clean_title = join '' '' parts;
          display_title = clean_title @ '' ['' @ host l @ '']''
      in (display_title, clean_title))"

section \<open>api/newznab.py: categories and result items\<close>

text \<open>\<open>any(x in q for x in xs)\<close>.\<close>

definition any_in :: "string list \<Rightarrow> string \<Rightarrow> bool" where
  "any_in xs q = list_ex (\<lambda>x. py_in x q) xs"

text \<open>
  \<open>get_category_for_quality\<close>; the last \<open>return\<close> is for a media type outside the
  enumeration, \<open>None\<close> here.
\<close>

definition get_category_for_quality :: "string \<Rightarrow> MediaType option \<Rightarrow> string" where
  "get_category_for_quality qual media_type =
     (let q = lower qual
      in if media_type = Some MOVIE then
           (if any_in [''2160'', ''uhd''] q then ''2045''
            else if any_in [''remux'', ''bluray''] q then ''2050''
            else if any_in [''1080'', ''720''] q then ''2040''
            else if any_in [''sd'', ''dvd'', ''480''] q then ''2030''
            else ''2040'')
         else if media_type = Some TV then
           (if any_in [''2160'', ''uhd''] q then ''5045''
            else if any_in [''1080'', ''720''] q then ''5040''
            else if any_in [''web''] q then ''5010''
            else ''5040'')
         else if media_type = Some MUSIC then
           (if any_in [''flac'', ''lossless''] q then ''3040'' else ''3010'')
         else ''2000'')"

text \<open>
  The size of a result item, as \<open>newznab_api\<close> computes it from the link's NFO, its
  \<open>size\<close> and the estimate.
\<close>

definition item_size :: "link \<Rightarrow> MediaType option \<Rightarrow> int" where
  "item_size l media_type =
     (let size = extract_size_from_nfo (nfo l);
          api_size = link_size l;
          without_nfo =
            (if api_size > 100000000 then api_size
             else estimate_file_size (quality l) media_type
                    (episode l = None \<or> episode l = Some 0))
      in case size of
           None \<Rightarrow> without_nfo
         | Some n \<Rightarrow> if n = 0 \<or> n < 100000000 then without_nfo else n)"

text \<open>
  One result item of \<open>newznab_api\<close>: its title, size and category (the identifier, the
  download address and the publication date are left out).
\<close>

record newznab_item =
  item_title :: string
  item_bytes :: int
  item_category :: string

definition newznab_item :: "(string \<Rightarrow> string option) \<Rightarrow> link \<Rightarrow> MediaType option \<Rightarrow> newznab_item" where
  "newznab_item edition_search l media_type =
     \<lparr>item_title = snd (build_release_title edition_search l (nfo l) media_type),
      item_bytes = item_size l media_type,
      item_category = get_category_for_quality (quality l) media_type\<rparr>"

definition test_movie_link :: link where
  "test_movie_link =
     \<lparr>link_id = Some 101, title_id = 12, link_title = ''Test Movie'', year = Some 2024,
      quality = ''ULTRA HD (x265)'', host = ''1fichier'', audio_languages = [''French''],
      subtitles = [], link_size = 50000000, season = Some 0, episode = None, nfo = [],
      download_url = None\<rparr>"

section \<open>services/darkiworld.py: diversifying the links by episode\<close>

definition quality_score :: "string \<Rightarrow> nat" where
  "quality_score q =
     (let q_upper = upper q
      in if py_in ''ULTRA HD'' q_upper \<and> \<not> py_in ''LIGHT'' q_upper then 0
         else if py_in ''ULTRA'' q_upper \<or> py_in ''UHD'' q_upper \<or> py_in ''2160'' q_upper \<or>
                 py_in ''4K'' q_upper then 1
         else if py_in ''REMUX'' q_upper then 2
         else if py_in ''BLURAY'' q_upper \<and> py_in ''1080'' q_upper then 3
         else if py_in ''1080'' q_upper then 4
         else if py_in ''720'' q_upper then 5
         else 6)"

text \<open>The second component of the sort key.\<close>

definition host_score :: "string \<Rightarrow> nat" where
  "host_score h =
     (if py_in ''1fichier'' (lower h) then 0 else if py_in ''send'' (lower h) then 1 else 2)"

text \<open>The sort key of a link; pairs are compared lexicographically, as Python's tuples.\<close>

definition sort_key_of :: "link \<Rightarrow> nat \<times> nat" where
  "sort_key_of x = (quality_score (quality x), host_score (host x))"

text \<open>The key under which a link enters \<open>links_by_episode\<close>: \<open>None\<close> becomes 0.\<close>

definition episode_key :: "link \<Rightarrow> int" where
  "episode_key l = (case episode l of None \<Rightarrow> 0 | Some ep \<Rightarrow> ep)"

text \<open>\<open>sorted(links_by_episode.keys())\<close>.\<close>

definition episodes :: "link list \<Rightarrow> int list" where
  "episodes all_links = sort (remdups (map episode_key all_links))"

text \<open>
  What the loop over the episodes appends for one episode: the first of the episode's
  links, sorted by the key with Python's stable \<open>sorted\<close>.
\<close>

definition best_of_episode :: "link list \<Rightarrow> int \<Rightarrow> link list" where
  "best_of_episode all_links ep =
     (let ep_links = filter (\<lambda>l. episode_key l = ep) all_links;
          ep_links_sorted = sort_key sort_key_of ep_links
      in case ep_links_sorted of [] \<Rightarrow> [] | x # _ \<Rightarrow> [x])"

text \<open>\<open>diversified_links\<close>, as \<open>get_title_links_verified\<close> builds it before verifying.\<close>

definition diversified_links :: "link list \<Rightarrow> link list" where
  "diversified_links all_links =
     (let firsts = concat (map (best_of_episode all_links) (episodes all_links));
          seen_ids = set (map link_id firsts)
      in firsts @ filter (\<lambda>l. link_id l \<notin> seen_ids) all_links)"

definition example_links :: "link list" where
  "example_links =
     [test_movie_link\<lparr>link_id := Some 1, episode := Some 1, quality := ''HDLight 1080p'',
                      host := ''1fichier''\<rparr>,
      test_movie_link\<lparr>link_id := Some 2, episode := Some 1, quality := ''ULTRA HD (x265)'',
                      host := ''Uptobox''\<rparr>,
      test_movie_link\<lparr>link_id := Some 3, episode := Some 2, quality := ''HDLight 720p'',
                      host := ''Send.now''\<rparr>,
      test_movie_link\<lparr>link_id := Some 4, episode := None, quality := ''REMUX BLURAY'',
                      host := ''Uptobox''\<rparr>,
      test_movie_link\<lparr>link_id := Some 5, episode := Some 2, quality := ''HDLight 720p'',
                      host := ''1fichier''\<rparr>,
      test_movie_link\<lparr>link_id := Some 6, episode := Some 0, quality := ''REMUX BLURAY'',
                      host := ''Uptobox''\<rparr>]"

text \<open>
  A listing in which one link of episode 1 was discovered twice, as happens when the
  upstream's pages shift between two requests.
\<close>

definition repeated_links :: "link list" where
  "repeated_links =
     [test_movie_link\<lparr>link_id := Some 1, episode := Some 1\<rparr>,
      test_movie_link\<lparr>link_id := Some 2, episode := Some 1, quality := ''HDLight 720p''\<rparr>,
      test_movie_link\<lparr>link_id := Some 2, episode := Some 1, quality := ''HDLight 720p''\<rparr>]"

section \<open>services/darkiworld.py: the session\<close>

text \<open>The three settings the client reads.\<close>

record settings =
  darkiworld_base_url :: string
  darkiworld_remember_cookie_name :: string
  darkiworld_remember_cookie_value :: string

text \<open>
  The state of a \<open>DarkiWorldClient\<close>: the cookie dictionary, the anti-forgery token, the
  end of the session's validity, and the three metadata caches as one value.
\<close>

record 'm client =
  cookies :: "(string \<times> string) list"
  xsrf_token :: "string option"
  session_valid_until :: "datetime option"
  metadata :: 'm

text \<open>The client as \<open>__init__\<close> leaves it.\<close>

definition new_client :: "'m \<Rightarrow> 'm client" where
  "new_client no_metadata =
     \<lparr>cookies = [], xsrf_token = None, session_valid_until = None, metadata = no_metadata\<rparr>"

text \<open>
  The answer to the request of \<open>ensure_authenticated\<close>: the request raises, or a
  response arrives with its status code, its cookies and its text.
\<close>

datatype auth_response = AuthRaised | AuthResponse int "(string \<times> string) list" string

text \<open>\<open>d[k] = v\<close> on a dictionary kept as an association list.\<close>

fun dict_set :: "string \<Rightarrow> string \<Rightarrow> (string \<times> string) list \<Rightarrow> (string \<times> string) list" where
  "dict_set k v [] = [(k, v)]"
| "dict_set k v ((k', v') # kvs) = (if k' = k then (k, v) # kvs else (k', v') # dict_set k v kvs)"

text \<open>
  The loop over the response cookies; \<open>unquote\<close> is \<open>urllib.parse.unquote\<close>.
\<close>

fun take_cookies :: "(string \<Rightarrow> string) \<Rightarrow> (string \<times> string) list \<Rightarrow> 'm client \<Rightarrow> 'm client" where
  "take_cookies unquote [] c = c"
| "take_cookies unquote ((name, val) # rest) c =
     take_cookies unquote rest
       (let c' = c\<lparr>cookies := dict_set name val (cookies c)\<rparr>
        in if py_in ''xsrf'' (lower name) then c'\<lparr>xsrf_token := Some (unquote val)\<rparr> else c')"

text \<open>
  \<open>ensure_authenticated\<close>, at time \<open>now\<close>, with the answer \<open>resp\<close> to its request should
  it make one. \<open>extract_metadata\<close> is what \<open>_extract_metadata\<close> makes of the caches from
  the text of the page. The result is the returned flag and the client afterwards.
\<close>

definition ensure_authenticated ::
  "(string \<Rightarrow> string) \<Rightarrow> (string \<Rightarrow> 'm \<Rightarrow> 'm) \<Rightarrow> settings \<Rightarrow> datetime \<Rightarrow> auth_response \<Rightarrow>
   'm client \<Rightarrow> bool \<times> 'm client" where
  "ensure_authenticated unquote extract_metadata s now resp c =
     (if (case session_valid_until c of None \<Rightarrow> False | Some t \<Rightarrow> now < t) then (True, c)
      else
        let cookie_name = darkiworld_remember_cookie_name s;
            cookie_value = darkiworld_remember_cookie_value s
        in if cookie_name = [] \<or> cookie_value = [] then (False, c)
           else
             let c1 = c\<lparr>cookies := [(cookie_name, cookie_value)]\<rparr>
             in case resp of
                  AuthRaised \<Rightarrow> (False, c1)
                | AuthResponse status_code resp_cookies text \<Rightarrow>
                    let c2 = take_cookies unquote resp_cookies c1;
                        c3 = c2\<lparr>metadata := extract_metadata text (metadata c2)\<rparr>
                    in if status_code = 200 \<and> ''darkiworld_session'' \<in> set (map fst (cookies c3))
                       then (True, c3\<lparr>session_valid_until := Some (now + timedelta_hours 1)\<rparr>)
                       else (False, c3))"

section \<open>services/darkiworld.py: search\<close>

text \<open>An entry of \<open>results\<close> in the answer to a search, and the result built from it.\<close>

record search_item =
  item_id :: "int option"
  item_name :: string
  item_original_title :: "string option"
  item_year :: "int option"
  item_type :: string
  item_cat :: "string option"
  item_tmdb_id :: "int option"
  item_imdb_id :: "string option"
  item_poster :: "string option"
  item_description :: string
  item_have_link :: int
  item_last_link :: "string option"

record search_result =
  res_id :: "int option"
  res_title :: string
  res_original_title :: "string option"
  res_year :: "int option"
  res_type :: string
  res_category :: "string option"
  res_tmdb_id :: "int option"
  res_imdb_id :: "string option"
  res_poster :: "string option"
  res_description :: string
  res_have_link :: int
  res_last_link :: "string option"

datatype search_response = SearchRaised | SearchResponse int "search_item list"

text \<open>
  The filter by media type inside the loop of \<open>search\<close>. An item of the wanted type
  passes the first three tests and reaches the fourth, which reads \<open>MediaType.BOOK\<close>; the
  enumeration has no such member, so the test raises \<open>AttributeError\<close>.
\<close>

datatype filter_outcome = Skip | Keep | RaisesAttributeError

definition filter_by_media_type :: "MediaType option \<Rightarrow> string \<Rightarrow> filter_outcome" where
  "filter_by_media_type media_type itype =
     (case media_type of
        None \<Rightarrow> Keep
      | Some mt \<Rightarrow>
          if mt = MOVIE \<and> itype \<noteq> ''movie'' then Skip
          else if mt = TV \<and> itype \<notin> set [''series'', ''tv'', ''animes''] then Skip
          else if mt = MUSIC \<and> itype \<noteq> ''music'' then Skip
          else RaisesAttributeError)"

definition normalized_type :: "string \<Rightarrow> string" where
  "normalized_type itype =
     (if itype = ''movie'' then ''movie''
      else if itype \<in> set [''series'', ''tv'', ''animes''] then ''series''
      else if itype = ''ebook'' then ''ebook''
      else itype)"

definition result_of_item :: "search_item \<Rightarrow> search_result" where
  "result_of_item item =
     \<lparr>res_id = item_id item, res_title = item_name item,
      res_original_title = item_original_title item, res_year = item_year item,
      res_type = normalized_type (item_type item), res_category = item_cat item,
      res_tmdb_id = item_tmdb_id item, res_imdb_id = item_imdb_id item,
      res_poster = item_poster item, res_description = item_description item,
      res_have_link = item_have_link item, res_last_link = item_last_link item\<rparr>"

text \<open>The loop over the items: \<open>None\<close> when an iteration raises.\<close>

fun search_loop :: "MediaType option \<Rightarrow> search_item list \<Rightarrow> search_result list \<Rightarrow> search_result list option" where
  "search_loop media_type [] results = Some results"
| "search_loop media_type (item # items) results =
     (case filter_by_media_type media_type (item_type item) of
        Skip \<Rightarrow> search_loop media_type items results
      | RaisesAttributeError \<Rightarrow> None
      | Keep \<Rightarrow> search_loop media_type items (results @ [result_of_item item]))"

text \<open>
  \<open>search\<close>: \<open>auth\<close> is the outcome of \<open>ensure_authenticated\<close>, \<open>resp\<close> the answer to
  the search request.
\<close>

definition search :: "bool \<times> 'm client \<Rightarrow> MediaType option \<Rightarrow> search_response \<Rightarrow> search_result list \<times> 'm client" where
  "search auth media_type resp =
     (if \<not> fst auth then ([], snd auth)
      else case resp of
          SearchRaised \<Rightarrow> ([], snd auth)
        | SearchResponse status_code api_results \<Rightarrow>
            if status_code \<noteq> 200 then ([], snd auth)
            else (case search_loop media_type api_results [] of
                    None \<Rightarrow> ([], snd auth)
                  | Some results \<Rightarrow> (results, snd auth)))"

section \<open>services/darkiworld.py: the paginated link listing\<close>

text \<open>
  The answer to the request for one page: the request or the decoding raises, or a
  response arrives with its status code, the \<open>status\<close> of its body, its \<open>title\<close> and
  the records \<open>pagination.data\<close>.
\<close>

datatype ('t, 'r) page_response = PageRaised | PageResponse int string 't "'r list"

text \<open>
  \<open>_parse_link\<close>: the field extraction inside its \<open>try\<close> is the parameter
  \<open>read_fields\<close>,
  which gives the Link or raises (\<open>Inl\<close>); any exception makes the result \<open>None\<close>.
\<close>

definition parse_link :: "(int \<Rightarrow> 't \<Rightarrow> 'r \<Rightarrow> unit + link) \<Rightarrow> int \<Rightarrow> 't \<Rightarrow> 'r \<Rightarrow> link option" where
  "parse_link read_fields tid title_info raw =
     (case read_fields tid title_info raw of Inl e \<Rightarrow> None | Inr l \<Rightarrow> Some l)"

text \<open>The loop over the records of one page: the parsed links, in order.\<close>

definition parse_page :: "(int \<Rightarrow> 't \<Rightarrow> 'r \<Rightarrow> unit + link) \<Rightarrow> int \<Rightarrow> 't \<Rightarrow> 'r list \<Rightarrow> link list" where
  "parse_page read_fields tid title_info links_data =
     List.map_filter (parse_link read_fields tid title_info) links_data"

text \<open>
  The \<open>while True\<close> loop of \<open>get_title_links\<close>, entered with the page number, the title
  information and the links gathered so far; \<open>fetch p\<close> is the answer to the request for
  page \<open>p\<close>. The result is \<open>Inl\<close> when a request raises, and the gathered links when
  the loop is left by a \<open>break\<close>.
\<close>

function links_loop ::
  "(int \<Rightarrow> 't \<Rightarrow> 'r \<Rightarrow> unit + link) \<Rightarrow> (nat \<Rightarrow> ('t, 'r) page_response) \<Rightarrow> int \<Rightarrow>
   nat \<Rightarrow> 't \<Rightarrow> link list \<Rightarrow> unit + link list" where
  "links_loop read_fields fetch tid page title_info all_links =
     (case fetch page of
        PageRaised \<Rightarrow> Inl ()
      | PageResponse status_code api_status page_title links_data \<Rightarrow>
          if status_code \<noteq> 200 then Inr all_links
          else if api_status \<noteq> ''success'' then Inr all_links
          else
            let title_info' = (if page = 1 then page_title else title_info)
            in if links_data = [] then Inr all_links
               else
                 let all_links' = all_links @ parse_page read_fields tid title_info' links_data
                 in if length links_data < 42 then Inr all_links'
                    else if page + 1 > 50 then Inr all_links'
                    else links_loop read_fields fetch tid (page + 1) title_info' all_links')"
  by pat_completeness auto
termination
  by (relation "measure (\<lambda>(read_fields, fetch, tid, page, title_info, all_links). 51 - page)") auto

text \<open>
  \<open>get_title_links\<close>: \<open>auth\<close> is the outcome of \<open>ensure_authenticated\<close>, \<open>no_title\<close>
  the empty title information the loop starts with.
\<close>

definition get_title_links ::
  "bool \<times> 'm client \<Rightarrow> (int \<Rightarrow> 't \<Rightarrow> 'r \<Rightarrow> unit + link) \<Rightarrow> (nat \<Rightarrow> ('t, 'r) page_response) \<Rightarrow>
   't \<Rightarrow> int \<Rightarrow> link list \<times> 'm client" where
  "get_title_links auth read_fields fetch no_title tid =
     (if \<not> fst auth then ([], snd auth)
      else case links_loop read_fields fetch tid 1 no_title [] of
          Inl e \<Rightarrow> ([], snd auth)
        | Inr all_links \<Rightarrow> (all_links, snd auth))"

section \<open>services/darkiworld.py: checking a link and resolving its address\<close>

text \<open>The object \<open>lien\<close> in the answer to a download request.\<close>

record lien =
  deleted_at :: "string option"
  active :: "int option"
  directDL :: "string option"
  lien_url :: "string option"

datatype download_response = DownloadRaised | DownloadResponse int lien

text \<open>\<open>a or b\<close> on optional strings.\<close>

definition py_or :: "string option \<Rightarrow> string option \<Rightarrow> string option" where
  "py_or a b = (if truthy_str a then a else b)"

definition verify_link_availability ::
  "bool \<times> 'm client \<Rightarrow> download_response \<Rightarrow> (bool \<times> lien option) \<times> 'm client" where
  "verify_link_availability auth resp =
     (if \<not> fst auth then ((False, None), snd auth)
      else case resp of
          DownloadRaised \<Rightarrow> ((False, None), snd auth)
        | DownloadResponse status_code lien_obj \<Rightarrow>
            if status_code \<noteq> 200 then ((False, None), snd auth)
            else if deleted_at lien_obj \<noteq> None then ((False, None), snd auth)
            else if active lien_obj \<noteq> Some 1 then ((False, None), snd auth)
            else if \<not> truthy_str (py_or (directDL lien_obj) (lien_url lien_obj))
              then ((False, None), snd auth)
            else ((True, Some lien_obj), snd auth))"

definition get_download_url ::
  "bool \<times> 'm client \<Rightarrow> download_response \<Rightarrow> string option \<times> 'm client" where
  "get_download_url auth resp =
     (if \<not> fst auth then (None, snd auth)
      else case resp of
          DownloadRaised \<Rightarrow> (None, snd auth)
        | DownloadResponse status_code lien_obj \<Rightarrow>
            if status_code \<noteq> 200 then (None, snd auth)
            else
              (case py_or (directDL lien_obj) (lien_url lien_obj) of
                 None \<Rightarrow> (None, snd auth)
               | Some url \<Rightarrow>
                   if url = [] then (None, snd auth)
                   else if py_in ''send.cm/'' url
                     then (Some (replace_str ''send.cm/'' ''send.now/'' url), snd auth)
                   else (Some url, snd auth)))"

text \<open>
  The clients that can arise under the settings \<open>s\<close>: the new client, and the client
  after any call of \<open>ensure_authenticated\<close>, which is the only operation that writes to
  the client and the first step of each of the four others.
\<close>

inductive reachable ::
  "(string \<Rightarrow> string) \<Rightarrow> (string \<Rightarrow> 'm \<Rightarrow> 'm) \<Rightarrow> settings \<Rightarrow> 'm client \<Rightarrow> bool"
  for unquote :: "string \<Rightarrow> string" and extract_metadata :: "string \<Rightarrow> 'm \<Rightarrow> 'm" and s :: settings
  where
    reachable_new: "reachable unquote extract_metadata s (new_client m0)"
  | reachable_call:
      "reachable unquote extract_metadata s c \<Longrightarrow>
       reachable unquote extract_metadata s
         (snd (ensure_authenticated unquote extract_metadata s now resp c))"

section \<open>The pagination, in the words of the specification\<close>

text \<open>
  A full page: a successful response with at least 42 records. Every other answer ends the
  listing: a request that raises, a status code other than 200, a body whose status is not
  \<open>success\<close>, an empty page, a page of fewer than 42 records.
\<close>

definition full_page :: "('t, 'r) page_response \<Rightarrow> bool" where
  "full_page resp =
     (case resp of
        PageRaised \<Rightarrow> False
      | PageResponse status_code api_status page_title links_data \<Rightarrow>
          status_code = 200 \<and> api_status = ''success'' \<and> 42 \<le> length links_data)"

text \<open>The page at which the listing that starts at page \<open>p\<close> ends: the first page from
  \<open>p\<close> on that is not full, and page 50 at the latest.\<close>

function stop_page :: "(nat \<Rightarrow> ('t, 'r) page_response) \<Rightarrow> nat \<Rightarrow> nat" where
  "stop_page fetch p = (if 50 \<le> p \<or> \<not> full_page (fetch p) then p else stop_page fetch (p + 1))"
  by pat_completeness auto
termination
  by (relation "measure (\<lambda>(fetch, p). 50 - p)") auto

text \<open>The links that one answer contributes: those parsed from a successful response.\<close>

definition page_links ::
  "(int \<Rightarrow> 't \<Rightarrow> 'r \<Rightarrow> unit + link) \<Rightarrow> int \<Rightarrow> 't \<Rightarrow> ('t, 'r) page_response \<Rightarrow> link list" where
  "page_links read_fields tid title_info resp =
     (case resp of
        PageRaised \<Rightarrow> []
      | PageResponse status_code api_status page_title links_data \<Rightarrow>
          if status_code = 200 \<and> api_status = ''success''
          then parse_page read_fields tid title_info links_data else [])"

text \<open>The title information of the first page.\<close>

definition first_title :: "(nat \<Rightarrow> ('t, 'r) page_response) \<Rightarrow> 't \<Rightarrow> 't" where
  "first_title fetch no_title =
     (case fetch 1 of
        PageRaised \<Rightarrow> no_title
      | PageResponse status_code api_status page_title links_data \<Rightarrow> page_title)"

definition example_settings :: settings where
  "example_settings =
     \<lparr>darkiworld_base_url = ''https://darkiworld.com'',
      darkiworld_remember_cookie_name = '''',
      darkiworld_remember_cookie_value = ''secret''\<rparr>"

text \<open>An upstream that answers every page request with a full page, and a field
  extraction that never raises.\<close>

definition endless_pages :: "nat \<Rightarrow> (unit, unit) page_response" where
  "endless_pages p = PageResponse 200 ''success'' () (replicate 42 ())"

definition always_parses :: "int \<Rightarrow> unit \<Rightarrow> unit \<Rightarrow> unit + link" where
  "always_parses tid title_info raw = Inr test_movie_link"

section \<open>The normalisation, character by character\<close>

text \<open>What the nine replacements do to one character.\<close>

definition jd_char :: "char \<Rightarrow> string" where
  "jd_char x = (case map_of JD_CHAR_REPLACEMENTS x of Some r \<Rightarrow> r | None \<Rightarrow> [x])"

section \<open>Facts about strings\<close>

lemma replace_char_Nil: "replace_char c r [] = []"
  by (simp add: replace_char_def)

lemma replace_char_Cons:
  "replace_char c r (x # xs) = (if x = c then r else [x]) @ replace_char c r xs"
  by (simp add: replace_char_def)

lemma replace_char_append:
  "replace_char c r (xs @ ys) = replace_char c r xs @ replace_char c r ys"
  by (simp add: replace_char_def)

section \<open>Package-name normalisation is idempotent\<close>

lemma normalize_jd_name_Nil: "normalize_jd_name [] = []"
  by (simp add: normalize_jd_name_def JD_CHAR_REPLACEMENTS_def replace_char_Nil)

lemma normalize_jd_name_single: "normalize_jd_name [x] = jd_char x"
  by (simp add: normalize_jd_name_def JD_CHAR_REPLACEMENTS_def jd_char_def replace_char_Cons
      replace_char_Nil)

lemma normalize_jd_name_append:
  "normalize_jd_name (xs @ ys) = normalize_jd_name xs @ normalize_jd_name ys"
  by (simp add: normalize_jd_name_def JD_CHAR_REPLACEMENTS_def replace_char_append)

lemma normalize_jd_name_Cons: "normalize_jd_name (x # xs) = jd_char x @ normalize_jd_name xs"
  using normalize_jd_name_append [of "[x]" xs] by (simp add: normalize_jd_name_single)

lemma normalize_jd_char: "normalize_jd_name (jd_char x) = jd_char x"
  by (simp add: jd_char_def JD_CHAR_REPLACEMENTS_def normalize_jd_name_Cons
      normalize_jd_name_Nil)

text \<open>
  C10: the package-name normalisation is idempotent: for every string \<open>s\<close>,
  normalising \<open>normalize_jd_name s\<close> again gives \<open>normalize_jd_name s\<close>, since no
  character written by a replacement is itself replaced.
\<close>

theorem normalize_jd_name_idempotent:
  "normalize_jd_name (normalize_jd_name s) = normalize_jd_name s"
proof (induction s)
  case Nil
  show ?case by (simp add: normalize_jd_name_Nil)
next
  case (Cons x xs)
  have "normalize_jd_name (normalize_jd_name (x # xs)) =
        normalize_jd_name (jd_char x) @ normalize_jd_name (normalize_jd_name xs)"
    by (simp add: normalize_jd_name_Cons normalize_jd_name_append)
  also have "\<dots> = jd_char x @ normalize_jd_name xs"
    by (simp add: normalize_jd_char Cons.IH)
  finally show ?case by (simp add: normalize_jd_name_Cons)
qed

section \<open>The active and the completed view\<close>


lemma mset_filter_split:
  assumes "\<And>x. P x \<noteq> Q x"
  shows "mset (filter P xs) + mset (filter Q xs) = mset xs"
proof (induction xs)
  case Nil
  show ?case by simp
next
  case (Cons x xs)
  from assms [of x] Cons.IH show ?case by (cases "P x") auto
qed


section \<open>Stale-entry cleanup removes the stale entries and nothing else\<close>

lemma fold_dict_del: "fold dict_del ks ds = filter (\<lambda>(k, dl). k \<notin> set ks) ds"
proof (induction ks arbitrary: ds)
  case Nil
  show ?case by simp
next
  case (Cons k ks)
  have "fold dict_del (k # ks) ds = filter (\<lambda>(k', dl). k' \<notin> set ks) (dict_del k ds)"
    by (simp add: Cons.IH)
  also have "\<dots> = filter (\<lambda>(k', dl). k' \<notin> set (k # ks)) ds"
    by (auto simp add: dict_del_def intro: filter_cong)
  finally show ?case .
qed

lemma key_selected_iff:
  assumes "distinct (map fst ds)" and "(k, dl) \<in> set ds"
  shows "k \<in> set (map fst (filter P ds)) \<longleftrightarrow> P (k, dl)"
proof
  assume "k \<in> set (map fst (filter P ds))"
  then obtain dl' where in': "(k, dl') \<in> set ds" and P: "P (k, dl')" by auto
  from assms in' have "dl' = dl" by (meson eq_key_imp_eq_value)
  with P show "P (k, dl)" by simp
next
  assume "P (k, dl)"
  with assms(2) show "k \<in> set (map fst (filter P ds))" by force
qed

lemma filter_none_visible:
  "filter (\<lambda>f. \<not> startswith ''.'' f) fs = [] \<longleftrightarrow> list_all (startswith ''.'') fs"
  by (induction fs) auto

lemma should_remove_iff: "should_remove fs now dl \<longleftrightarrow> consumed fs dl \<or> expired now dl"
  by (cases "status dl")
    (auto simp add: should_remove_def consumed_def expired_def filter_none_visible
      split: option.splits)

lemma cleanup_store:
  assumes "distinct (map fst ds)"
  shows "fst (cleanup_stale_downloads fs now ds) =
         filter (\<lambda>(k, dl). \<not> should_remove fs now dl) ds"
proof -
  let ?P = "\<lambda>(k :: string, dl). should_remove fs now dl"
  have "fst (cleanup_stale_downloads fs now ds) =
        filter (\<lambda>(k, dl). k \<notin> set (map fst (filter ?P ds))) ds"
    by (simp add: cleanup_stale_downloads_def fold_dict_del)
  also have "\<dots> = filter (\<lambda>(k, dl). \<not> should_remove fs now dl) ds"
  proof (rule filter_cong [OF refl])
    fix x assume x: "x \<in> set ds"
    obtain k dl where [simp]: "x = (k, dl)" by (cases x)
    from key_selected_iff [OF assms, of k dl ?P] x
    show "(case x of (k, dl) \<Rightarrow> k \<notin> set (map fst (filter ?P ds))) =
          (case x of (k, dl) \<Rightarrow> \<not> should_remove fs now dl)"
      by simp
  qed
  finally show ?thesis .
qed

lemma cleanup_count:
  "snd (cleanup_stale_downloads fs now ds) =
   length (filter (\<lambda>(k, dl). should_remove fs now dl) ds)"
  by (simp add: cleanup_stale_downloads_def)

text \<open>
  C5, as the code has it: one cleanup pass over a store \<open>ds\<close> (a dictionary, so with
  distinct keys) keeps, in their order and unchanged, exactly the entries that are neither
  consumed nor expired, and returns the number of entries removed. An entry is consumed
  when it is completed and its recorded output path no longer exists or is a directory with
  no entry other than dot-files; it is expired when it is failed and more than 24 hours old.
  So every entry in an active status stays, whatever the agent knows about it, and a failed
  entry at most 24 hours old stays.
\<close>

theorem cleanup_removes_exactly_stale:
  assumes "distinct (map fst ds)"
  shows "fst (cleanup_stale_downloads fs now ds) =
           filter (\<lambda>(k, dl). \<not> (consumed fs dl \<or> expired now dl)) ds \<and>
         snd (cleanup_stale_downloads fs now ds) =
           length (filter (\<lambda>(k, dl). consumed fs dl \<or> expired now dl) ds) \<and>
         (\<forall>(k, dl) \<in> set ds. status dl \<in> active_statuses \<longrightarrow>
            (k, dl) \<in> set (fst (cleanup_stale_downloads fs now ds))) \<and>
         (\<forall>(k, dl) \<in> set ds. status dl = FAILED \<and> now - created_at dl \<le> timedelta_hours 24 \<longrightarrow>
            (k, dl) \<in> set (fst (cleanup_stale_downloads fs now ds)))"
proof -
  have kept: "fst (cleanup_stale_downloads fs now ds) =
      filter (\<lambda>(k, dl). \<not> (consumed fs dl \<or> expired now dl)) ds"
    using cleanup_store [OF assms, of fs now] by (simp add: should_remove_iff)
  have count: "snd (cleanup_stale_downloads fs now ds) =
      length (filter (\<lambda>(k, dl). consumed fs dl \<or> expired now dl) ds)"
    by (simp add: cleanup_count should_remove_iff)
  have active: "\<forall>(k, dl) \<in> set ds. status dl \<in> active_statuses \<longrightarrow>
      (k, dl) \<in> set (fst (cleanup_stale_downloads fs now ds))"
    unfolding kept by (auto simp add: consumed_def expired_def active_statuses_def)
  have young: "\<forall>(k, dl) \<in> set ds.
      status dl = FAILED \<and> now - created_at dl \<le> timedelta_hours 24 \<longrightarrow>
      (k, dl) \<in> set (fst (cleanup_stale_downloads fs now ds))"
    unfolding kept by (auto simp add: consumed_def expired_def)
  from kept count active young show ?thesis by simp
qed

theorem cleanup_removes_exactly_stale_witness:
  "distinct (map fst example_store) \<and>
   cleanup_stale_downloads example_fs (timedelta_hours 25) example_store =
     ([(''a'', example_download),
       (''e'', example_download\<lparr>dl_id := ''e'', status := FAILED,
                                created_at := timedelta_hours 1\<rparr>)], 3)"
proof -
  have keys: "distinct (map fst example_store)"
    by (simp add: example_store_def)
  have "consumed example_fs (example_download\<lparr>dl_id := ''b'', status := COMPLETED\<rparr>)"
    by (simp add: consumed_def example_fs_def example_download_def)
  moreover have "consumed example_fs (example_download\<lparr>dl_id := ''c'', status := COMPLETED,
                               output_path := Some ''/output/radarr/gone''\<rparr>)"
    by (simp add: consumed_def example_fs_def example_download_def)
  moreover have "expired (timedelta_hours 25) (example_download\<lparr>dl_id := ''d'', status := FAILED\<rparr>)"
    by (simp add: expired_def example_download_def timedelta_hours_def)
  moreover have "\<not> expired (timedelta_hours 25) (example_download\<lparr>dl_id := ''e'', status := FAILED,
                                created_at := timedelta_hours 1\<rparr>)"
    by (simp add: expired_def example_download_def timedelta_hours_def)
  moreover have "\<not> consumed example_fs example_download \<and> \<not> expired (timedelta_hours 25) example_download"
    by (simp add: consumed_def expired_def example_fs_def example_download_def)
  ultimately show ?thesis
    using keys cleanup_removes_exactly_stale [OF keys, of example_fs "timedelta_hours 25"]
    by (simp add: example_store_def consumed_def prod_eq_iff)
qed

text \<open>
  The claim as stated fails: a completed Download whose output directory still holds a
  dot-file, so is not empty, is removed.
\<close>

theorem cleanup_nonempty_directory_counterexample:
  "path_exists example_fs ''/output/radarr/x'' \<and>
   path_isdir example_fs ''/output/radarr/x'' \<and>
   listdir example_fs ''/output/radarr/x'' = [''.nfo''] \<and>
   cleanup_stale_downloads example_fs 0
     [(''b'', example_download\<lparr>dl_id := ''b'', status := COMPLETED\<rparr>)] = ([], 1)"
  by (simp add: cleanup_stale_downloads_def should_remove_def dict_del_def example_fs_def
      example_download_def)

section \<open>Looking a package up by identifier, then by name\<close>

lemma find_package_by_uuid:
  "find_package u None pkgs =
   map_option package_to_status (find (\<lambda>p. truthy_eq u (str_opt_int (pkg_uuid p))) pkgs)"
  by (induction pkgs) simp_all

lemma find_package_by_name:
  "find_package None n pkgs =
   map_option package_to_status (find (\<lambda>p. truthy_eq n (pkg_name p)) pkgs)"
  by (induction pkgs) simp_all

lemma find_never: "find (\<lambda>p. False) pkgs = None"
  by (induction pkgs) simp_all

lemma find_truthy_eq:
  "find (\<lambda>p. truthy_eq (Some u) (f p)) pkgs = (if u = [] then None else find (\<lambda>p. f p = u) pkgs)"
  by (cases "u = []") (simp_all add: find_never)

lemma get_package_status_by_uuid:
  "get_package_status (Some u) None pkgs =
   (if u = [] then None
    else map_option package_to_status (find (\<lambda>p. str_opt_int (pkg_uuid p) = u) pkgs))"
  by (simp add: get_package_status_def find_package_by_uuid find_truthy_eq find_never)

lemma get_package_status_by_name:
  "get_package_status None (Some n) pkgs =
   (if n = [] \<or> normalize_jd_name n = [] then None
    else map_option package_to_status (find (\<lambda>p. pkg_name p = normalize_jd_name n) pkgs))"
  by (simp add: get_package_status_def find_package_by_name find_truthy_eq find_never)

text \<open>
  C8, as the code has it: polling looks the package up first by the stored identifier
  (when there is one): the first package whose identifier, as a string, equals it. Only if
  that finds nothing and a non-empty package name is stored, it takes the first package
  whose name equals the normalised stored name, provided the normalised name is not empty;
  such a hit replaces the stored identifier by the package's identifier. Otherwise nothing
  is found and the Download keeps its identifier.
\<close>

theorem resolve_status_lookup_order:
  "resolve_status pkgs1 pkgs2 d =
     (case (case jd_uuid d of
              None \<Rightarrow> None
            | Some u \<Rightarrow> if u = [] then None
                        else find (\<lambda>p. str_opt_int (pkg_uuid p) = u) pkgs1) of
        Some p \<Rightarrow> (Some (package_to_status p), d)
      | None \<Rightarrow>
          (case jd_package_name d of
             None \<Rightarrow> (None, d)
           | Some n \<Rightarrow>
               if n = [] \<or> normalize_jd_name n = [] then (None, d)
               else (case find (\<lambda>p. pkg_name p = normalize_jd_name n) pkgs2 of
                       None \<Rightarrow> (None, d)
                     | Some p \<Rightarrow>
                         (Some (package_to_status p),
                          d\<lparr>jd_uuid := Some (str_opt_int (pkg_uuid p))\<rparr>))))"
proof (cases "jd_uuid d")
  case None
  then show ?thesis
    by (cases "jd_package_name d")
      (auto simp add: resolve_status_def get_package_status_by_name package_to_status_def
        split: option.splits)
next
  case (Some u)
  then show ?thesis
    by (cases "jd_package_name d")
      (auto simp add: resolve_status_def get_package_status_by_uuid
        get_package_status_by_name package_to_status_def split: option.splits)
qed

theorem resolve_status_lookup_order_witness:
  "resolve_status [example_package\<lparr>pkg_name := ''Movie; Part 1''\<rparr>]
       [example_package\<lparr>pkg_name := ''Movie; Part 1''\<rparr>]
       (example_download\<lparr>jd_uuid := Some ''99'', jd_package_name := Some ''Movie: Part 1?''\<rparr>) =
     (Some (package_to_status (example_package\<lparr>pkg_name := ''Movie; Part 1''\<rparr>)),
      example_download\<lparr>jd_uuid := Some ''7'', jd_package_name := Some ''Movie: Part 1?''\<rparr>)"
proof -
  have uuid: "str_opt_int (pkg_uuid example_package) = ''7''"
    by code_simp
  have name: "normalize_jd_name ''Movie: Part 1?'' = ''Movie; Part 1''"
    by code_simp
  show ?thesis
    using resolve_status_lookup_order
      [of "[example_package\<lparr>pkg_name := ''Movie; Part 1''\<rparr>]"
          "[example_package\<lparr>pkg_name := ''Movie; Part 1''\<rparr>]"
          "example_download\<lparr>jd_uuid := Some ''99'', jd_package_name := Some ''Movie: Part 1?''\<rparr>"]
    by (simp add: uuid name)
qed

text \<open>
  The claim as stated fails where the stored name normalises to the empty string: the
  agent's package name equals the normalised stored name, yet the lookup by name finds
  nothing and the identifier is not replaced.
\<close>

theorem resolve_status_empty_name_counterexample:
  "jd_uuid (example_download\<lparr>jd_uuid := None, jd_package_name := Some ''?''\<rparr>) = None \<and>
   pkg_name (example_package\<lparr>pkg_name := ''''\<rparr>) = normalize_jd_name ''?'' \<and>
   resolve_status [example_package\<lparr>pkg_name := ''''\<rparr>] [example_package\<lparr>pkg_name := ''''\<rparr>]
       (example_download\<lparr>jd_uuid := None, jd_package_name := Some ''?''\<rparr>) =
     (None, example_download\<lparr>jd_uuid := None, jd_package_name := Some ''?''\<rparr>)"
  by (simp add: resolve_status_def get_package_status_def normalize_jd_name_def
      JD_CHAR_REPLACEMENTS_def replace_char_def example_package_def example_download_def)

section \<open>The transitions of a Download\<close>

lemma resolve_status_download:
  "resolve_status pkgs1 pkgs2 d = (r, d') \<Longrightarrow>
   output_path d' = output_path d \<and> status d' = status d \<and> (r = None \<longrightarrow> d' = d)"
  by (auto simp add: resolve_status_def Let_def split: if_splits option.splits)

lemma before_status:
  "status (compute_percentage (copy_save_to st (copy_counters st d))) = status d \<and>
   output_path (compute_percentage (copy_save_to st (copy_counters st d))) =
     (if save_to st \<noteq> [] then Some (save_to st) else output_path d)"
  by (simp add: compute_percentage_def copy_save_to_def copy_counters_def)

lemma determine_status_finished:
  "finished st \<Longrightarrow>
   status (determine_status now fns st d) = COMPLETED \<and>
   progress (determine_status now fns st d) = 100 \<and>
   completed_at (determine_status now fns st d) = Some now \<and>
   output_path (determine_status now fns st d) =
     (if truthy_str (jd_uuid d) \<and> save_to st \<noteq> [] \<and> fns \<noteq> [] \<and> hd fns \<noteq> []
      then Some (save_to st) else output_path d)"
  by (cases fns) (simp_all add: determine_status_def Let_def)

lemma apply_status_finished:
  "finished st \<Longrightarrow>
   status (apply_status now fns st d) = COMPLETED \<and>
   progress (apply_status now fns st d) = 100 \<and>
   completed_at (apply_status now fns st d) = Some now \<and>
   output_path (apply_status now fns st d) =
     (if save_to st \<noteq> [] then Some (save_to st) else output_path d)"
  by (simp add: apply_status_def determine_status_finished before_status)

lemma apply_status_running:
  "\<not> finished st \<Longrightarrow> running st \<Longrightarrow> status (apply_status now fns st d) = DOWNLOADING"
  by (simp add: apply_status_def determine_status_def)

lemma apply_status_text:
  "\<not> finished st \<Longrightarrow> \<not> running st \<Longrightarrow>
   status (apply_status now fns st d) =
     (if py_in ''extract'' (lower (st_status st)) then EXTRACTING
      else if py_in ''queue'' (lower (st_status st)) \<or> py_in ''wait'' (lower (st_status st))
        then QUEUED
      else status d)"
  by (simp add: apply_status_def determine_status_def Let_def before_status)

text \<open>
  C4, as the code has it. When polling finds a package status \<open>st\<close> for the Download:
  if \<open>st\<close> reports finished, the Download becomes completed, its progress is 100, its
  completion time is the time of the poll, and its output path is the agent's
  save-location when that is not empty (the path is kept otherwise); else if \<open>st\<close>
  reports running, the Download becomes downloading; otherwise the lower-cased free-text
  status is searched, in this order, for \<open>extract\<close> (extracting), then for \<open>queue\<close> or
  \<open>wait\<close> (queued), and the status is kept when none occurs. When polling finds no
  package, the Download is returned unchanged. When the submission returns no identifier,
  \<open>start_download\<close> returns false and leaves the Download failed with an error message.
\<close>

theorem update_progress_transitions:
  "(\<forall>st d'. resolve_status pkgs1 pkgs2 d = (Some st, d') \<longrightarrow>
      (finished st \<longrightarrow>
         status (update_progress now pkgs1 pkgs2 fns d) = COMPLETED \<and>
         progress (update_progress now pkgs1 pkgs2 fns d) = 100 \<and>
         completed_at (update_progress now pkgs1 pkgs2 fns d) = Some now \<and>
         output_path (update_progress now pkgs1 pkgs2 fns d) =
           (if save_to st \<noteq> [] then Some (save_to st) else output_path d)) \<and>
      (\<not> finished st \<and> running st \<longrightarrow>
         status (update_progress now pkgs1 pkgs2 fns d) = DOWNLOADING) \<and>
      (\<not> finished st \<and> \<not> running st \<longrightarrow>
         status (update_progress now pkgs1 pkgs2 fns d) =
           (if py_in ''extract'' (lower (st_status st)) then EXTRACTING
            else if py_in ''queue'' (lower (st_status st)) \<or>
                    py_in ''wait'' (lower (st_status st)) then QUEUED
            else status d))) \<and>
   (\<forall>d'. resolve_status pkgs1 pkgs2 d = (None, d') \<longrightarrow>
      update_progress now pkgs1 pkgs2 fns d = d) \<and>
   (\<not> truthy_str uuid \<longrightarrow>
      fst (start_download out uuid d) = False \<and>
      status (snd (start_download out uuid d)) = FAILED \<and>
      error_message (snd (start_download out uuid d)) \<in> {Some msg_no_links, Some msg_add_failed})"
proof -
  have found: "\<forall>st d'. resolve_status pkgs1 pkgs2 d = (Some st, d') \<longrightarrow>
      (finished st \<longrightarrow>
         status (update_progress now pkgs1 pkgs2 fns d) = COMPLETED \<and>
         progress (update_progress now pkgs1 pkgs2 fns d) = 100 \<and>
         completed_at (update_progress now pkgs1 pkgs2 fns d) = Some now \<and>
         output_path (update_progress now pkgs1 pkgs2 fns d) =
           (if save_to st \<noteq> [] then Some (save_to st) else output_path d)) \<and>
      (\<not> finished st \<and> running st \<longrightarrow>
         status (update_progress now pkgs1 pkgs2 fns d) = DOWNLOADING) \<and>
      (\<not> finished st \<and> \<not> running st \<longrightarrow>
         status (update_progress now pkgs1 pkgs2 fns d) =
           (if py_in ''extract'' (lower (st_status st)) then EXTRACTING
            else if py_in ''queue'' (lower (st_status st)) \<or>
                    py_in ''wait'' (lower (st_status st)) then QUEUED
            else status d))"
  proof (intro allI impI)
    fix st d'
    assume r: "resolve_status pkgs1 pkgs2 d = (Some st, d')"
    then have u: "update_progress now pkgs1 pkgs2 fns d = apply_status now fns st d'"
      by (simp add: update_progress_def)
    from resolve_status_download [OF r]
    have same: "output_path d' = output_path d" "status d' = status d" by simp_all
    show "(finished st \<longrightarrow>
         status (update_progress now pkgs1 pkgs2 fns d) = COMPLETED \<and>
         progress (update_progress now pkgs1 pkgs2 fns d) = 100 \<and>
         completed_at (update_progress now pkgs1 pkgs2 fns d) = Some now \<and>
         output_path (update_progress now pkgs1 pkgs2 fns d) =
           (if save_to st \<noteq> [] then Some (save_to st) else output_path d)) \<and>
      (\<not> finished st \<and> running st \<longrightarrow>
         status (update_progress now pkgs1 pkgs2 fns d) = DOWNLOADING) \<and>
      (\<not> finished st \<and> \<not> running st \<longrightarrow>
         status (update_progress now pkgs1 pkgs2 fns d) =
           (if py_in ''extract'' (lower (st_status st)) then EXTRACTING
            else if py_in ''queue'' (lower (st_status st)) \<or>
                    py_in ''wait'' (lower (st_status st)) then QUEUED
            else status d))"
      unfolding u
      using apply_status_finished [of st now fns d'] apply_status_running [of st now fns d']
        apply_status_text [of st now fns d'] same
      by simp
  qed
  have lost: "\<forall>d'. resolve_status pkgs1 pkgs2 d = (None, d') \<longrightarrow>
      update_progress now pkgs1 pkgs2 fns d = d"
  proof (intro allI impI)
    fix d'
    assume r: "resolve_status pkgs1 pkgs2 d = (None, d')"
    from resolve_status_download [OF r] have "d' = d" by simp
    with r show "update_progress now pkgs1 pkgs2 fns d = d"
      by (simp add: update_progress_def)
  qed
  have submit: "\<not> truthy_str uuid \<longrightarrow>
      fst (start_download out uuid d) = False \<and>
      status (snd (start_download out uuid d)) = FAILED \<and>
      error_message (snd (start_download out uuid d)) \<in> {Some msg_no_links, Some msg_add_failed}"
    by (simp add: start_download_def Let_def)
  show ?thesis by (rule conjI [OF found conjI [OF lost submit]])
qed

lemma resolve_example:
  "resolve_status [example_package] [] example_download =
   (Some (package_to_status example_package), example_download)"
  by code_simp

theorem update_progress_transitions_witness:
  "status (update_progress 5 [example_package] [] [] example_download) = COMPLETED \<and>
   progress (update_progress 5 [example_package] [] [] example_download) = 100 \<and>
   completed_at (update_progress 5 [example_package] [] [] example_download) = Some 5 \<and>
   output_path (update_progress 5 [example_package] [] [] example_download) = Some ''/x'' \<and>
   \<not> truthy_str None \<and>
   status (snd (start_download ''/output'' None example_download)) = FAILED"
proof -
  have fin: "finished (package_to_status example_package)"
    and save: "save_to (package_to_status example_package) = ''/x''"
    by (simp_all add: package_to_status_def example_package_def)
  from update_progress_transitions
    [of "[example_package]" "[]" example_download 5 "[]" None "''/output''"]
    resolve_example fin save
  show ?thesis by simp
qed

text \<open>
  The claim as stated fails in two places. A Download whose package cannot be resolved is
  not failed: polling returns it as it was, still downloading and without an error message.
  And a finished package with an empty save-location leaves the output path as it was.
\<close>

theorem update_progress_unresolved_counterexample:
  "resolve_status [] [] example_download = (None, example_download) \<and>
   status (update_progress 5 [] [] [] example_download) = DOWNLOADING \<and>
   error_message (update_progress 5 [] [] [] example_download) = None \<and>
   finished (package_to_status (example_package\<lparr>saveTo := ''''\<rparr>)) \<and>
   resolve_status [example_package\<lparr>saveTo := ''''\<rparr>] [] example_download =
     (Some (package_to_status (example_package\<lparr>saveTo := ''''\<rparr>)), example_download) \<and>
   output_path (update_progress 5 [example_package\<lparr>saveTo := ''''\<rparr>] [] [] example_download) =
     Some ''/output/radarr/x''"
  by code_simp



section \<open>The end-to-end scenario\<close>

text \<open>
  C1: for the link with raw quality \<open>ULTRA HD (x265)\<close>, title \<open>Test Movie\<close>, year 2024,
  the single audio language French, no NFO and no subtitles, processed as a movie,
  \<open>normalize_quality\<close> gives \<open>Bluray-2160p\<close> and the clean title is
  \<open>Test Movie (2024) Bluray-2160p\<close>. The category of the result item is computed from the
  raw quality, which names neither \<open>2160\<close> nor \<open>uhd\<close>, and is 2040; computed from the
  normalised quality it is 2045.
\<close>

theorem test_movie_scenario:
  "normalize_quality (quality test_movie_link) = ''Bluray-2160p'' \<and>
   snd (build_release_title edition_search test_movie_link (nfo test_movie_link) (Some MOVIE)) =
     ''Test Movie (2024) Bluray-2160p'' \<and>
   item_title (newznab_item edition_search test_movie_link (Some MOVIE)) =
     ''Test Movie (2024) Bluray-2160p'' \<and>
   item_category (newznab_item edition_search test_movie_link (Some MOVIE)) = ''2040'' \<and>
   get_category_for_quality (normalize_quality (quality test_movie_link)) (Some MOVIE) = ''2045''"
proof -
  have q: "normalize_quality (quality test_movie_link) = ''Bluray-2160p''"
    by code_simp
  have year: "episode_or_year_part test_movie_link (Some MOVIE) = [''(2024)'']"
    by code_simp
  have audio: "audio_part (map normalize_language (take 3 (audio_languages test_movie_link))) = []"
    by code_simp
  have fields: "link_title test_movie_link = ''Test Movie''" "subtitles test_movie_link = []"
    "nfo test_movie_link = []"
    by (simp_all add: test_movie_link_def)
  have t: "snd (build_release_title edition_search test_movie_link (nfo test_movie_link)
      (Some MOVIE)) = ''Test Movie (2024) Bluray-2160p''"
    by (simp add: build_release_title_def Let_def q year audio fields)
  have c: "get_category_for_quality (quality test_movie_link) (Some MOVIE) = ''2040''"
    by code_simp
  have c': "get_category_for_quality (normalize_quality (quality test_movie_link)) (Some MOVIE)
      = ''2045''"
    by code_simp
  from q t c c' show ?thesis by (simp add: newznab_item_def)
qed

section \<open>The size of a result item\<close>









section \<open>One link per episode first\<close>

lemma episodes_sorted_list: "episodes ls = sorted_list_of_set (episode_key ` set ls)"
  by (simp add: episodes_def sorted_list_of_set_sort_remdups [symmetric])

lemma length_episodes: "length (episodes ls) = card (episode_key ` set ls)"
  by (simp add: episodes_sorted_list)

lemma set_episodes: "set (episodes ls) = episode_key ` set ls"
  by (simp add: episodes_def)

lemma find_filter_Cons: "filter P xs = y # ys \<Longrightarrow> find P xs = Some y"
  by (induction xs) (auto split: if_splits)

text \<open>The head of a stable sort: a least key, and the first element with that key.\<close>

lemma sort_key_head:
  assumes "sort_key f ys = x # xs"
  shows "x \<in> set ys" and "\<forall>y \<in> set ys. f x \<le> f y" and "find (\<lambda>y. f y = f x) ys = Some x"
proof -
  have "set (sort_key f ys) = set ys" by simp
  with assms show "x \<in> set ys" by auto
  have "sorted (map f (sort_key f ys))" by simp
  with assms have "\<forall>y \<in> set xs. f x \<le> f y" by simp
  moreover have "set ys = insert x (set xs)"
    using assms set_sort [of f ys] by simp
  ultimately show "\<forall>y \<in> set ys. f x \<le> f y" by simp
  have "filter (\<lambda>y. f y = f x) ys = filter (\<lambda>y. f y = f x) (sort_key f ys)"
    by (simp add: sort_key_stable)
  also have "\<dots> = x # filter (\<lambda>y. f y = f x) xs"
    using assms by simp
  finally show "find (\<lambda>y. f y = f x) ys = Some x"
    by (rule find_filter_Cons)
qed

lemma find_filter_conj:
  "find P (filter Q xs) = find (\<lambda>x. Q x \<and> P x) xs"
  by (induction xs) simp_all

lemma best_of_episode_cases:
  assumes "ep \<in> episode_key ` set ls"
  obtains x where "best_of_episode ls ep = [x]" and "x \<in> set ls" and "episode_key x = ep"
    and "\<forall>l \<in> set ls. episode_key l = ep \<longrightarrow> sort_key_of x \<le> sort_key_of l"
    and "find (\<lambda>l. episode_key l = ep \<and> sort_key_of l = sort_key_of x) ls = Some x"
proof -
  let ?ys = "filter (\<lambda>l. episode_key l = ep) ls"
  from assms have "?ys \<noteq> []" by (auto simp add: filter_empty_conv)
  then have "sort_key sort_key_of ?ys \<noteq> []"
    by (metis length_sort length_0_conv)
  then obtain x xs where s: "sort_key sort_key_of ?ys = x # xs"
    by (cases "sort_key sort_key_of ?ys") auto
  from sort_key_head [OF s]
  have mem: "x \<in> set ?ys" and least: "\<forall>y \<in> set ?ys. sort_key_of x \<le> sort_key_of y"
    and first: "find (\<lambda>y. sort_key_of y = sort_key_of x) ?ys = Some x"
    by simp_all
  show thesis
  proof (rule that [of x])
    show "best_of_episode ls ep = [x]" by (simp add: best_of_episode_def s)
    show "x \<in> set ls" using mem by simp
    show "episode_key x = ep" using mem by simp
    show "\<forall>l \<in> set ls. episode_key l = ep \<longrightarrow> sort_key_of x \<le> sort_key_of l"
      using least by simp
    show "find (\<lambda>l. episode_key l = ep \<and> sort_key_of l = sort_key_of x) ls = Some x"
      using first by (simp add: find_filter_conj)
  qed
qed

text \<open>The representatives of a list of episodes that all occur.\<close>

lemma firsts_of:
  assumes "set eps \<subseteq> episode_key ` set ls"
  shows "map episode_key (concat (map (best_of_episode ls) eps)) = eps \<and>
    (\<forall>r \<in> set (concat (map (best_of_episode ls) eps)).
       r \<in> set ls \<and>
       (\<forall>l \<in> set ls. episode_key l = episode_key r \<longrightarrow> sort_key_of r \<le> sort_key_of l) \<and>
       find (\<lambda>l. episode_key l = episode_key r \<and> sort_key_of l = sort_key_of r) ls = Some r)"
  using assms
proof (induction eps)
  case Nil
  show ?case by simp
next
  case (Cons ep eps)
  from Cons.prems have "ep \<in> episode_key ` set ls" by simp
  then obtain x where x: "best_of_episode ls ep = [x]" "x \<in> set ls" "episode_key x = ep"
    "\<forall>l \<in> set ls. episode_key l = ep \<longrightarrow> sort_key_of x \<le> sort_key_of l"
    "find (\<lambda>l. episode_key l = ep \<and> sort_key_of l = sort_key_of x) ls = Some x"
    by (rule best_of_episode_cases)
  from Cons.prems have "set eps \<subseteq> episode_key ` set ls" by simp
  from Cons.IH [OF this] x show ?case by simp
qed

lemma mset_chosen_and_rest:
  assumes "distinct ls" and "distinct fs" and "set fs \<subseteq> set ls"
  shows "mset (fs @ filter (\<lambda>l. l \<notin> set fs) ls) = mset ls"
proof -
  have "set (filter (\<lambda>l. l \<in> set fs) ls) = set fs"
    using assms(3) by auto
  moreover have "distinct (filter (\<lambda>l. l \<in> set fs) ls)"
    using assms(1) by simp
  ultimately have "mset (filter (\<lambda>l. l \<in> set fs) ls) = mset fs"
    using assms(2) by (simp only: set_eq_iff_mset_eq_distinct [symmetric])
  moreover have "mset (filter (\<lambda>l. l \<in> set fs) ls) + mset (filter (\<lambda>l. l \<notin> set fs) ls) = mset ls"
    by (rule mset_filter_split) simp
  ultimately show ?thesis by simp
qed

lemma diversified_links_permutation:
  assumes "distinct (map link_id ls)"
  shows "mset (diversified_links ls) = mset ls"
    and "distinct (map link_id (diversified_links ls))"
proof -
  let ?firsts = "concat (map (best_of_episode ls) (episodes ls))"
  from assms have dist: "distinct ls" and inj: "inj_on link_id (set ls)"
    by (simp_all add: distinct_map)
  have sub: "set (episodes ls) \<subseteq> episode_key ` set ls"
    by (simp add: set_episodes)
  note firsts = firsts_of [OF sub]
  have keys: "map episode_key ?firsts = episodes ls"
    using firsts by (rule conjunct1)
  have "distinct (episodes ls)"
    by (simp add: episodes_def)
  then have "distinct (map episode_key ?firsts)"
    by (simp only: keys)
  then have df: "distinct ?firsts"
    by (simp only: distinct_map)
  have fsub: "set ?firsts \<subseteq> set ls"
    using conjunct2 [OF firsts] by blast
  have same: "filter (\<lambda>l. link_id l \<notin> link_id ` set ?firsts) ls =
      filter (\<lambda>l. l \<notin> set ?firsts) ls"
  proof (rule filter_cong [OF refl])
    fix l assume "l \<in> set ls"
    with inj fsub show "(link_id l \<notin> link_id ` set ?firsts) = (l \<notin> set ?firsts)"
      by (auto dest: inj_onD)
  qed
  have "diversified_links ls =
      ?firsts @ filter (\<lambda>l. link_id l \<notin> link_id ` set ?firsts) ls"
    by (simp add: diversified_links_def Let_def)
  then have d: "diversified_links ls = ?firsts @ filter (\<lambda>l. l \<notin> set ?firsts) ls"
    by (simp only: same)
  show m: "mset (diversified_links ls) = mset ls"
    unfolding d by (rule mset_chosen_and_rest [OF dist df fsub])
  then have "mset (map link_id (diversified_links ls)) = mset (map link_id ls)"
    by simp
  from mset_eq_imp_distinct_iff [OF this] assms
  show "distinct (map link_id (diversified_links ls))" by simp
qed

lemma quality_ladder:
  "quality_score ''ULTRA HD (x265)'' = 0 \<and> quality_score ''Ultra HDLight (x265)'' = 1 \<and>
   quality_score ''REMUX BLURAY'' = 2 \<and> quality_score ''Bluray 1080p'' = 3 \<and>
   quality_score ''HDLight 1080p'' = 4 \<and> quality_score ''HDLight 720p'' = 5 \<and>
   quality_score ''DVDRIP'' = 6 \<and>
   host_score ''1fichier'' = 0 \<and> host_score ''Send.now'' = 1 \<and> host_score ''Uptobox'' = 2"
  by code_simp

text \<open>
  C2, as the code has it: let \<open>E\<close> be the number of distinct episode keys of the
  discovered links \<open>ls\<close> (an absent episode counts as episode 0, the season pack). The
  first \<open>E\<close> diversified links have exactly the distinct episode keys, in ascending
  order, so one link per episode and no episode twice. Each of them is a discovered link
  whose key (quality score, then host score, lower is better) is least among the links of
  its episode, and among the links with that episode and key it is the first discovered.
  The links after the first \<open>E\<close> are the discovered links, in discovery order, whose
  link id is not the id of one of the first \<open>E\<close>: a link is left out only for sharing
  its id with a representative, and an id that occurs several times among the others stays
  as often. When the discovered links have distinct ids, the diversified list is a
  rearrangement of them, again with distinct ids. The quality score puts the 2160p class
  (0 and 1) before remux (2), bluray 1080p (3), other 1080p (4), 720p (5) and the rest (6);
  the host score puts 1fichier (0) before send (1) before all others (2).
\<close>

theorem diversified_links_one_per_episode:
  "map episode_key (take (card (episode_key ` set ls)) (diversified_links ls)) =
     sorted_list_of_set (episode_key ` set ls) \<and>
   distinct (map episode_key (take (card (episode_key ` set ls)) (diversified_links ls))) \<and>
   (\<forall>r \<in> set (take (card (episode_key ` set ls)) (diversified_links ls)).
      r \<in> set ls \<and>
      (\<forall>l \<in> set ls. episode_key l = episode_key r \<longrightarrow>
         quality_score (quality r) < quality_score (quality l) \<or>
         quality_score (quality r) = quality_score (quality l) \<and>
           host_score (host r) \<le> host_score (host l)) \<and>
      find (\<lambda>l. episode_key l = episode_key r \<and> sort_key_of l = sort_key_of r) ls = Some r) \<and>
   drop (card (episode_key ` set ls)) (diversified_links ls) =
     filter (\<lambda>l. link_id l \<notin>
         link_id ` set (take (card (episode_key ` set ls)) (diversified_links ls))) ls \<and>
   (distinct (map link_id ls) \<longrightarrow>
      mset (diversified_links ls) = mset ls \<and> distinct (map link_id (diversified_links ls))) \<and>
   quality_score ''ULTRA HD (x265)'' = 0 \<and> quality_score ''Ultra HDLight (x265)'' = 1 \<and>
   quality_score ''REMUX BLURAY'' = 2 \<and> quality_score ''Bluray 1080p'' = 3 \<and>
   quality_score ''HDLight 1080p'' = 4 \<and> quality_score ''HDLight 720p'' = 5 \<and>
   quality_score ''DVDRIP'' = 6 \<and>
   host_score ''1fichier'' = 0 \<and> host_score ''Send.now'' = 1 \<and> host_score ''Uptobox'' = 2"
proof -
  let ?firsts = "concat (map (best_of_episode ls) (episodes ls))"
  let ?E = "card (episode_key ` set ls)"
  have sub: "set (episodes ls) \<subseteq> episode_key ` set ls"
    by (simp add: set_episodes)
  note firsts = firsts_of [OF sub]
  have keys: "map episode_key ?firsts = episodes ls"
    using firsts by (rule conjunct1)
  have "length (map episode_key ?firsts) = length (episodes ls)"
    by (simp only: keys)
  then have len: "length ?firsts = ?E"
    by (simp only: length_map length_episodes)
  have d: "diversified_links ls =
      ?firsts @ filter (\<lambda>l. link_id l \<notin> link_id ` set ?firsts) ls"
    by (simp add: diversified_links_def Let_def)
  have tk: "take ?E (diversified_links ls) = ?firsts"
    using len by (simp add: d)
  have dr: "drop ?E (diversified_links ls) =
      filter (\<lambda>l. link_id l \<notin> link_id ` set ?firsts) ls"
    using len by (simp add: d)
  have one: "map episode_key (take ?E (diversified_links ls)) =
      sorted_list_of_set (episode_key ` set ls)"
    unfolding tk keys by (rule episodes_sorted_list)
  have dist: "distinct (map episode_key (take ?E (diversified_links ls)))"
    unfolding one by simp
  have best: "\<forall>r \<in> set (take ?E (diversified_links ls)).
      r \<in> set ls \<and>
      (\<forall>l \<in> set ls. episode_key l = episode_key r \<longrightarrow>
         quality_score (quality r) < quality_score (quality l) \<or>
         quality_score (quality r) = quality_score (quality l) \<and>
           host_score (host r) \<le> host_score (host l)) \<and>
      find (\<lambda>l. episode_key l = episode_key r \<and> sort_key_of l = sort_key_of r) ls = Some r"
  proof
    fix r assume "r \<in> set (take ?E (diversified_links ls))"
    then have r: "r \<in> set ?firsts" by (simp add: tk)
    have "r \<in> set ls \<and>
      (\<forall>l \<in> set ls. episode_key l = episode_key r \<longrightarrow> sort_key_of r \<le> sort_key_of l) \<and>
      find (\<lambda>l. episode_key l = episode_key r \<and> sort_key_of l = sort_key_of r) ls = Some r"
      using conjunct2 [OF firsts] r by (rule bspec)
    then have a: "r \<in> set ls"
      and b: "\<forall>l \<in> set ls. episode_key l = episode_key r \<longrightarrow> sort_key_of r \<le> sort_key_of l"
      and c: "find (\<lambda>l. episode_key l = episode_key r \<and> sort_key_of l = sort_key_of r) ls = Some r"
      by (rule conjunct1, rule conjunct2 [THEN conjunct1], rule conjunct2 [THEN conjunct2])
    have "\<forall>l \<in> set ls. episode_key l = episode_key r \<longrightarrow>
         quality_score (quality r) < quality_score (quality l) \<or>
         quality_score (quality r) = quality_score (quality l) \<and>
           host_score (host r) \<le> host_score (host l)"
    proof (intro ballI impI)
      fix l assume "l \<in> set ls" "episode_key l = episode_key r"
      with b have "sort_key_of r \<le> sort_key_of l" by simp
      then show "quality_score (quality r) < quality_score (quality l) \<or>
         quality_score (quality r) = quality_score (quality l) \<and>
           host_score (host r) \<le> host_score (host l)"
        by (auto simp add: sort_key_of_def less_eq_prod_def)
    qed
    with a c show "r \<in> set ls \<and>
      (\<forall>l \<in> set ls. episode_key l = episode_key r \<longrightarrow>
         quality_score (quality r) < quality_score (quality l) \<or>
         quality_score (quality r) = quality_score (quality l) \<and>
           host_score (host r) \<le> host_score (host l)) \<and>
      find (\<lambda>l. episode_key l = episode_key r \<and> sort_key_of l = sort_key_of r) ls = Some r"
      by simp
  qed
  have rest: "drop ?E (diversified_links ls) =
     filter (\<lambda>l. link_id l \<notin> link_id ` set (take ?E (diversified_links ls))) ls"
    by (simp add: dr tk)
  have perm: "distinct (map link_id ls) \<longrightarrow>
      mset (diversified_links ls) = mset ls \<and> distinct (map link_id (diversified_links ls))"
    using diversified_links_permutation [of ls] by simp
  show ?thesis
    by (rule conjI [OF one conjI [OF dist conjI [OF best conjI [OF rest
        conjI [OF perm quality_ladder]]]]])
qed

theorem diversified_links_one_per_episode_witness:
  "card (episode_key ` set example_links) = 3 \<and>
   map episode_key (take 3 (diversified_links example_links)) = [0, 1, 2] \<and>
   drop 3 (diversified_links example_links) =
     filter (\<lambda>l. link_id l \<notin> link_id ` set (take 3 (diversified_links example_links)))
       example_links \<and>
   distinct (map link_id example_links) \<and>
   mset (diversified_links example_links) = mset example_links \<and>
   distinct (map link_id (diversified_links example_links))"
proof -
  have c: "card (episode_key ` set example_links) = 3"
    by code_simp
  have s: "sorted_list_of_set (episode_key ` set example_links) = [0, 1, 2]"
    by code_simp
  have ids: "distinct (map link_id example_links)"
    by code_simp
  from diversified_links_one_per_episode [of example_links] ids
  show ?thesis unfolding c s by (intro conjI) (rule refl | elim conjE | assumption | blast)+
qed

text \<open>
  The claim as stated fails on a listing that holds a link twice: the three links are of
  one episode, so \<open>E\<close> is 1, and the two links after the first have the same id.
\<close>

theorem diversified_links_repeated_id_counterexample:
  "card (episode_key ` set repeated_links) = 1 \<and>
   map link_id (diversified_links repeated_links) = [Some 1, Some 2, Some 2] \<and>
   \<not> distinct (map link_id (drop 1 (diversified_links repeated_links)))"
  by code_simp




section \<open>The link listing ends within fifty pages\<close>

declare links_loop.simps [simp del]
declare stop_page.simps [simp del]

lemma stop_page_ge: "p \<le> stop_page fetch p"
proof (induction "50 - p" arbitrary: p)
  case 0
  then show ?case by (subst stop_page.simps) simp
next
  case (Suc k)
  from Suc.hyps(2) have "k = 50 - (p + 1)" by simp
  from Suc.hyps(1) [OF this] show ?case
    by (subst stop_page.simps) simp
qed

lemma stop_page_le: "p \<le> 50 \<Longrightarrow> stop_page fetch p \<le> 50"
proof (induction "50 - p" arbitrary: p)
  case 0
  then show ?case by (subst stop_page.simps) simp
next
  case (Suc k)
  from Suc.hyps(2) have k: "k = 50 - (p + 1)" and p: "p + 1 \<le> 50" by simp_all
  from Suc.hyps(1) [OF k p] Suc.prems show ?case
    by (subst stop_page.simps) simp
qed

lemma stop_page_full: "p \<le> q \<Longrightarrow> q < stop_page fetch p \<Longrightarrow> full_page (fetch q)"
proof (induction "50 - p" arbitrary: p)
  case 0
  then have "stop_page fetch p = p" by (subst stop_page.simps) simp
  with 0 show ?case by simp
next
  case (Suc k)
  from Suc.hyps(2) have k: "k = 50 - (p + 1)" by simp
  show ?case
  proof (cases "full_page (fetch p)")
    case False
    then have "stop_page fetch p = p" by (subst stop_page.simps) simp
    with Suc.prems show ?thesis by simp
  next
    case True
    from Suc.hyps(2) have "p < 50" by arith
    with True have step: "stop_page fetch p = stop_page fetch (p + 1)"
      by (subst stop_page.simps) simp
    show ?thesis
    proof (cases "q = p")
      case True
      with \<open>full_page (fetch p)\<close> show ?thesis by simp
    next
      case False
      with Suc.prems have "p + 1 \<le> q" "q < stop_page fetch (p + 1)" by (simp_all add: step)
      with Suc.hyps(1) [OF k] show ?thesis by simp
    qed
  qed
qed

lemma stop_page_stops: "p \<le> 50 \<Longrightarrow> \<not> full_page (fetch (stop_page fetch p)) \<or> stop_page fetch p = 50"
proof (induction "50 - p" arbitrary: p)
  case 0
  then have p: "p = 50" by arith
  then have "stop_page fetch p = p" by (subst stop_page.simps) simp
  with p show ?case by simp
next
  case (Suc k)
  from Suc.hyps(2) have k: "k = 50 - (p + 1)" and p: "p + 1 \<le> 50" by simp_all
  show ?case
  proof (cases "full_page (fetch p)")
    case False
    then have "stop_page fetch p = p" by (subst stop_page.simps) simp
    with False show ?thesis by simp
  next
    case True
    from Suc.hyps(2) have "p < 50" by arith
    with True have "stop_page fetch p = stop_page fetch (p + 1)"
      by (subst stop_page.simps) simp
    with Suc.hyps(1) [OF k p] show ?thesis by simp
  qed
qed

lemma links_loop_last:
  assumes "50 \<le> p \<or> \<not> full_page (fetch p)"
  shows "links_loop rf fetch tid p ti acc =
    (if fetch p = PageRaised then Inl ()
     else Inr (acc @ page_links rf tid (if p = 1 then first_title fetch ti else ti) (fetch p)))"
proof (cases "fetch p")
  case PageRaised
  then show ?thesis by (subst links_loop.simps) simp
next
  case (PageResponse code st t ds)
  with assms show ?thesis
    by (subst links_loop.simps)
      (auto simp add: full_page_def page_links_def first_title_def parse_page_def Let_def
        map_filter_simps)
qed

lemma links_loop_next:
  assumes "p < 50" and "full_page (fetch p)"
  shows "links_loop rf fetch tid p ti acc =
    links_loop rf fetch tid (p + 1) (if p = 1 then first_title fetch ti else ti)
      (acc @ page_links rf tid (if p = 1 then first_title fetch ti else ti) (fetch p))"
proof (cases "fetch p")
  case PageRaised
  with assms(2) show ?thesis by (simp add: full_page_def)
next
  case (PageResponse code st t ds)
  with assms have ok: "code = 200" "st = ''success''" "42 \<le> length ds"
    by (simp_all add: full_page_def)
  then have ne: "ds \<noteq> []" by auto
  from PageResponse ok ne assms(1) show ?thesis
    by (subst links_loop.simps) (auto simp add: page_links_def first_title_def Let_def)
qed

lemma links_loop_from:
  assumes "1 \<le> p" and "p \<le> 50"
  shows "links_loop rf fetch tid p ti acc =
    (if fetch (stop_page fetch p) = PageRaised then Inl ()
     else Inr (acc @ concat (map
        (\<lambda>q. page_links rf tid (if p = 1 then first_title fetch ti else ti) (fetch q))
        [p..<Suc (stop_page fetch p)])))"
  using assms
proof (induction "50 - p" arbitrary: p ti acc)
  case 0
  then have "50 \<le> p" by arith
  then have stop: "stop_page fetch p = p" by (subst stop_page.simps) simp
  from links_loop_last [of p fetch rf tid ti acc] \<open>50 \<le> p\<close> show ?case
    by (simp add: stop)
next
  case (Suc k)
  from Suc.hyps(2) have p: "p < 50" and k: "k = 50 - (p + 1)" by arith+
  let ?T = "if p = 1 then first_title fetch ti else ti"
  show ?case
  proof (cases "full_page (fetch p)")
    case False
    then have stop: "stop_page fetch p = p" by (subst stop_page.simps) simp
    from links_loop_last [of p fetch rf tid ti acc] False show ?thesis
      by (simp add: stop)
  next
    case True
    with p have stop: "stop_page fetch p = stop_page fetch (p + 1)"
      by (subst stop_page.simps) simp
    have le: "p + 1 \<le> stop_page fetch (p + 1)" by (rule stop_page_ge)
    then have upt: "[p..<Suc (stop_page fetch (p + 1))] = p # [p + 1..<Suc (stop_page fetch (p + 1))]"
      by (simp add: upt_conv_Cons)
    from p have "1 \<le> p + 1" "p + 1 \<le> 50" by simp_all
    from Suc.hyps(1) [OF k this, of ?T "acc @ page_links rf tid ?T (fetch p)"]
    have "links_loop rf fetch tid (p + 1) ?T (acc @ page_links rf tid ?T (fetch p)) =
      (if fetch (stop_page fetch (p + 1)) = PageRaised then Inl ()
       else Inr ((acc @ page_links rf tid ?T (fetch p)) @ concat (map
          (\<lambda>q. page_links rf tid ?T (fetch q)) [p + 1..<Suc (stop_page fetch (p + 1))])))"
      using Suc.prems(1) by simp
    with links_loop_next [of p fetch rf tid ti acc, OF p True] show ?thesis
      by (simp only: stop upt list.map concat.simps append_assoc)
  qed
qed

lemma parse_page_Cons:
  "parse_page rf tid ti (r # rs) =
   (case rf tid ti r of Inl e \<Rightarrow> parse_page rf tid ti rs | Inr l \<Rightarrow> l # parse_page rf tid ti rs)"
  by (simp add: parse_page_def parse_link_def map_filter_simps split: sum.splits)

text \<open>
  C6: the paginated link listing always ends, for every way \<open>fetch\<close> the upstream may
  answer the page requests. It asks for the pages 1 to \<open>stop_page fetch 1\<close>, which is at
  most 50; every page before the last is a successful page of at least 42 records; the
  last is the first answer that is not (a request that raises, a status other than 200, a
  body that does not report success, an empty page, a page of fewer than 42 records) or it
  is page 50. Unless the last request raises, the loop returns the links parsed from all
  the successful pages it fetched, in order; parsing a page keeps the records that parse
  and skips those that raise. When the last request raises, the exception leaves the loop
  and \<open>get_title_links\<close> returns the empty list.
\<close>

theorem links_loop_ends_within_50_pages:
  "1 \<le> stop_page fetch 1 \<and> stop_page fetch 1 \<le> 50 \<and>
   (\<forall>q. 1 \<le> q \<and> q < stop_page fetch 1 \<longrightarrow> full_page (fetch q)) \<and>
   (\<not> full_page (fetch (stop_page fetch 1)) \<or> stop_page fetch 1 = 50) \<and>
   links_loop rf fetch tid 1 no_title [] =
     (if fetch (stop_page fetch 1) = PageRaised then Inl ()
      else Inr (concat (map (\<lambda>q. page_links rf tid (first_title fetch no_title) (fetch q))
                  [1..<Suc (stop_page fetch 1)]))) \<and>
   fst (get_title_links (True, c) rf fetch no_title tid) =
     (if fetch (stop_page fetch 1) = PageRaised then []
      else concat (map (\<lambda>q. page_links rf tid (first_title fetch no_title) (fetch q))
             [1..<Suc (stop_page fetch 1)])) \<and>
   parse_page rf tid ti [] = [] \<and>
   parse_page rf tid ti (r # rs) =
     (case rf tid ti r of
        Inl e \<Rightarrow> parse_page rf tid ti rs
      | Inr l \<Rightarrow> l # parse_page rf tid ti rs)"
proof -
  have ge: "1 \<le> stop_page fetch 1" by (rule stop_page_ge)
  have le: "stop_page fetch 1 \<le> 50" by (rule stop_page_le) simp
  have full: "\<forall>q. 1 \<le> q \<and> q < stop_page fetch 1 \<longrightarrow> full_page (fetch q)"
    using stop_page_full [of 1 _ fetch] by blast
  have stops: "\<not> full_page (fetch (stop_page fetch 1)) \<or> stop_page fetch 1 = 50"
    by (rule stop_page_stops) simp
  have loop: "links_loop rf fetch tid 1 no_title [] =
     (if fetch (stop_page fetch 1) = PageRaised then Inl ()
      else Inr (concat (map (\<lambda>q. page_links rf tid (first_title fetch no_title) (fetch q))
                  [1..<Suc (stop_page fetch 1)])))"
    using links_loop_from [of 1 rf fetch tid no_title "[]"] by simp
  have listing: "fst (get_title_links (True, c) rf fetch no_title tid) =
     (if fetch (stop_page fetch 1) = PageRaised then []
      else concat (map (\<lambda>q. page_links rf tid (first_title fetch no_title) (fetch q))
             [1..<Suc (stop_page fetch 1)]))"
    unfolding get_title_links_def loop by simp
  have nil: "parse_page rf tid ti [] = []"
    by (simp add: parse_page_def map_filter_simps)
  show ?thesis
    by (rule conjI [OF ge conjI [OF le conjI [OF full conjI [OF stops conjI [OF loop
        conjI [OF listing conjI [OF nil parse_page_Cons]]]]]]])
qed

lemma parse_page_always:
  "parse_page always_parses tid ti (replicate n r) = replicate n test_movie_link"
  by (induction n) (simp_all add: parse_page_def parse_link_def always_parses_def map_filter_simps)

theorem links_loop_ends_within_50_pages_witness:
  "stop_page endless_pages 1 = 50 \<and>
   links_loop always_parses endless_pages 7 1 () [] =
     Inr (concat (map (\<lambda>q. replicate 42 test_movie_link) [1..<51]))"
proof -
  have full: "\<And>q. full_page (endless_pages q)"
    by (simp add: full_page_def endless_pages_def)
  have links: "\<And>q. page_links always_parses 7 (first_title endless_pages ()) (endless_pages q) =
      replicate 42 test_movie_link"
    by (simp add: page_links_def endless_pages_def parse_page_always)
  from links_loop_ends_within_50_pages [of endless_pages always_parses 7 "()"] full
  have stop: "stop_page endless_pages 1 = 50"
    and loop: "links_loop always_parses endless_pages 7 1 () [] =
     (if endless_pages (stop_page endless_pages 1) = PageRaised then Inl ()
      else Inr (concat (map
        (\<lambda>q. page_links always_parses 7 (first_title endless_pages ()) (endless_pages q))
                  [1..<Suc (stop_page endless_pages 1)])))"
    by blast+
  have "endless_pages 50 \<noteq> PageRaised"
    by (simp add: endless_pages_def)
  with stop loop links show ?thesis by simp
qed

section \<open>Without credentials the catalog client gives nothing\<close>

lemma no_credentials_no_session:
  assumes "darkiworld_remember_cookie_name s = [] \<or> darkiworld_remember_cookie_value s = []"
    and "reachable unquote extract_metadata s c"
  shows "session_valid_until c = None"
  using assms(2)
proof (induction rule: reachable.induct)
  case (reachable_new m0)
  show ?case by (simp add: new_client_def)
next
  case (reachable_call c now resp)
  with assms(1) show ?case
    by (auto simp add: ensure_authenticated_def Let_def)
qed

text \<open>
  C7: when the remember-cookie name or value is not configured, then on every client that
  can arise (the new client, or the client after any calls) authentication returns false
  and leaves the client as it was, and each dependent operation returns its failure value
  whatever the upstream would have answered: search the empty list, the link listing the
  empty list, the link verification (false, none), and the download address none.
\<close>

theorem no_credentials_fail_closed:
  assumes "darkiworld_remember_cookie_name s = [] \<or> darkiworld_remember_cookie_value s = []"
    and "reachable unquote extract_metadata s c"
  shows "ensure_authenticated unquote extract_metadata s now aresp c = (False, c) \<and>
    search (ensure_authenticated unquote extract_metadata s now aresp c) media_type sresp =
      ([], c) \<and>
    get_title_links (ensure_authenticated unquote extract_metadata s now aresp c)
        rf fetch no_title tid = ([], c) \<and>
    verify_link_availability (ensure_authenticated unquote extract_metadata s now aresp c) dresp =
      ((False, None), c) \<and>
    get_download_url (ensure_authenticated unquote extract_metadata s now aresp c) dresp =
      (None, c)"
proof -
  from no_credentials_no_session [OF assms] have "session_valid_until c = None" .
  with assms(1) have auth: "ensure_authenticated unquote extract_metadata s now aresp c = (False, c)"
    by (auto simp add: ensure_authenticated_def Let_def)
  show ?thesis
    unfolding auth
    by (simp add: search_def get_title_links_def verify_link_availability_def
        get_download_url_def)
qed

theorem no_credentials_fail_closed_witness:
  "(darkiworld_remember_cookie_name example_settings = [] \<or>
    darkiworld_remember_cookie_value example_settings = []) \<and>
   ensure_authenticated id (\<lambda>text m. m) example_settings 0
       (AuthResponse 200 [(''darkiworld_session'', ''abc'')] [])
       (new_client ()) = (False, new_client ()) \<and>
   search (ensure_authenticated id (\<lambda>text m. m) example_settings 0
       (AuthResponse 200 [(''darkiworld_session'', ''abc'')] [])
       (new_client ())) None (SearchResponse 200 []) = ([], new_client ()) \<and>
   get_title_links (ensure_authenticated id (\<lambda>text m. m) example_settings 0
       (AuthResponse 200 [(''darkiworld_session'', ''abc'')] [])
       (new_client ())) always_parses endless_pages () 7 = ([], new_client ()) \<and>
   verify_link_availability (ensure_authenticated id (\<lambda>text m. m) example_settings 0
       (AuthResponse 200 [(''darkiworld_session'', ''abc'')] [])
       (new_client ())) DownloadRaised = ((False, None), new_client ()) \<and>
   get_download_url (ensure_authenticated id (\<lambda>text m. m) example_settings 0
       (AuthResponse 200 [(''darkiworld_session'', ''abc'')] [])
       (new_client ())) DownloadRaised = (None, new_client ())"
proof -
  have creds: "darkiworld_remember_cookie_name example_settings = [] \<or>
      darkiworld_remember_cookie_value example_settings = []"
    by (simp add: example_settings_def)
  have start: "reachable id (\<lambda>text m. m) example_settings (new_client ())"
    by (rule reachable_new)
  show ?thesis
    by (rule conjI [OF creds no_credentials_fail_closed [OF creds start]])
qed

end
